theory Spec2Isabelle
  imports Main
begin

section \<open>Python values used by both reference servers\<close>

text \<open>
  \<open>range(n)\<close> for an integer \<open>n\<close>: the integers \<open>0, 1, ..., n - 1\<close> in order
  (empty when \<open>n \<le> 0\<close>).
\<close>

definition range_py :: "int \<Rightarrow> int list" where
  "range_py n = map int [0..<nat n]"

section \<open>The pymodbus datastore objects the servers construct\<close>

text \<open>
  The classes \<open>ModbusSequentialDataBlock\<close>, \<open>ModbusDeviceContext\<close> and
  \<open>ModbusServerContext\<close> belong to the pymodbus library. The servers only call their
  constructors, so each object is the record of its constructor arguments.
\<close>

record 'a ModbusSequentialDataBlock =
  block_address :: int
  block_values :: "'a list"

record ModbusDeviceContext =
  co :: "bool ModbusSequentialDataBlock"
  di :: "bool ModbusSequentialDataBlock"
  hr :: "int ModbusSequentialDataBlock"
  ir :: "int ModbusSequentialDataBlock"

record ModbusServerContext =
  devices :: ModbusDeviceContext
  single :: bool

section \<open>reference\_server.py: ReferenceServer.\_create\_datastore\<close>

definition ReferenceServer_COIL_COUNT :: int where
  "ReferenceServer_COIL_COUNT = 1000"

definition ReferenceServer_DISCRETE_INPUT_COUNT :: int where
  "ReferenceServer_DISCRETE_INPUT_COUNT = 1000"

definition ReferenceServer_HOLDING_REGISTER_COUNT :: int where
  "ReferenceServer_HOLDING_REGISTER_COUNT = 1000"

definition ReferenceServer_INPUT_REGISTER_COUNT :: int where
  "ReferenceServer_INPUT_REGISTER_COUNT = 1000"

definition ReferenceServer_create_datastore :: ModbusServerContext where
  "ReferenceServer_create_datastore =
     (let coils = map (\<lambda>i. i mod 2 = 0) (range_py ReferenceServer_COIL_COUNT);
          discrete_inputs = map (\<lambda>i. i < 100) (range_py ReferenceServer_DISCRETE_INPUT_COUNT);
          holding_registers = range_py ReferenceServer_HOLDING_REGISTER_COUNT;
          input_registers = map (\<lambda>i. i * 10) (range_py ReferenceServer_INPUT_REGISTER_COUNT);
          store = \<lparr> co = \<lparr> block_address = 0, block_values = coils \<rparr>,
                    di = \<lparr> block_address = 0, block_values = discrete_inputs \<rparr>,
                    hr = \<lparr> block_address = 0, block_values = holding_registers \<rparr>,
                    ir = \<lparr> block_address = 0, block_values = input_registers \<rparr> \<rparr>
      in \<lparr> devices = store, single = True \<rparr>)"

section \<open>tls\_reference\_server.py: TLSReferenceServer.\_create\_datastore\<close>

definition TLSReferenceServer_COIL_COUNT :: int where
  "TLSReferenceServer_COIL_COUNT = 1000"

definition TLSReferenceServer_DISCRETE_INPUT_COUNT :: int where
  "TLSReferenceServer_DISCRETE_INPUT_COUNT = 1000"

definition TLSReferenceServer_HOLDING_REGISTER_COUNT :: int where
  "TLSReferenceServer_HOLDING_REGISTER_COUNT = 1000"

definition TLSReferenceServer_INPUT_REGISTER_COUNT :: int where
  "TLSReferenceServer_INPUT_REGISTER_COUNT = 1000"

definition TLSReferenceServer_create_datastore :: ModbusServerContext where
  "TLSReferenceServer_create_datastore =
     (let coils = map (\<lambda>i. i mod 2 = 0) (range_py TLSReferenceServer_COIL_COUNT);
          discrete_inputs = map (\<lambda>i. i < 100) (range_py TLSReferenceServer_DISCRETE_INPUT_COUNT);
          holding_registers = range_py TLSReferenceServer_HOLDING_REGISTER_COUNT;
          input_registers = map (\<lambda>i. i * 10) (range_py TLSReferenceServer_INPUT_REGISTER_COUNT);
          store = \<lparr> co = \<lparr> block_address = 0, block_values = coils \<rparr>,
                    di = \<lparr> block_address = 0, block_values = discrete_inputs \<rparr>,
                    hr = \<lparr> block_address = 0, block_values = holding_registers \<rparr>,
                    ir = \<lparr> block_address = 0, block_values = input_registers \<rparr> \<rparr>
      in \<lparr> devices = store, single = True \<rparr>)"

section \<open>Reading a register space\<close>

datatype store_error = IllegalDataAddress

text \<open>
  Modelled from the pymodbus library, which the two scripts call and do not contain:
  the read path of the datastore they build.

  A sequential block that starts at address \<open>s\<close> answers a request for \<open>count\<close>
  values at address \<open>a\<close> from the list positions \<open>a - s\<close> onwards
  (\<open>values[start : start + count]\<close> with \<open>start = address - self.address\<close>) and
  rejects, as an illegal data address, a request that starts before the block or runs
  past its end. The device context hands the address of a request to the block
  increased by one (\<open>address += 1\<close>): it numbers the block's entries from 1 unless its
  zero mode is asked for, and neither script asks for it.
\<close>

definition ModbusSequentialDataBlock_getValues ::
  "'a ModbusSequentialDataBlock \<Rightarrow> int \<Rightarrow> int \<Rightarrow> store_error + 'a list" where
  "ModbusSequentialDataBlock_getValues block address count =
     (let start = address - block_address block
      in if start < 0 \<or> int (length (block_values block)) < start + count
         then Inl IllegalDataAddress
         else Inr (take (nat count) (drop (nat start) (block_values block))))"

definition ModbusDeviceContext_getValues ::
  "'a ModbusSequentialDataBlock \<Rightarrow> int \<Rightarrow> int \<Rightarrow> store_error + 'a list" where
  "ModbusDeviceContext_getValues block address count =
     ModbusSequentialDataBlock_getValues block (address + 1) count"

text \<open>
  The specification's \<open>read(space, address, quantity)\<close> on the store a server serves:
  a read request for that register space, answered by the device context.
\<close>

definition read :: "'a ModbusSequentialDataBlock \<Rightarrow> int \<Rightarrow> int \<Rightarrow> store_error + 'a list" where
  "read space address quantity = ModbusDeviceContext_getValues space address quantity"

text \<open>The four register spaces of a server context, under the specification's names.\<close>

definition Coils :: "ModbusServerContext \<Rightarrow> bool ModbusSequentialDataBlock" where
  "Coils ctx = co (devices ctx)"

definition DiscreteInputs :: "ModbusServerContext \<Rightarrow> bool ModbusSequentialDataBlock" where
  "DiscreteInputs ctx = di (devices ctx)"

definition HoldingRegisters :: "ModbusServerContext \<Rightarrow> int ModbusSequentialDataBlock" where
  "HoldingRegisters ctx = hr (devices ctx)"

definition InputRegisters :: "ModbusServerContext \<Rightarrow> int ModbusSequentialDataBlock" where
  "InputRegisters ctx = ir (devices ctx)"

section \<open>Python strings of integers\<close>

text \<open>
  \<open>str(n)\<close> for a Python integer, as used by the f-strings that print the port:
  decimal digits, most significant first, with a leading minus sign for negatives.
\<close>

function str_nat :: "nat \<Rightarrow> string" where
  "str_nat n =
     (if n < 10 then [''0123456789'' ! n]
      else str_nat (n div 10) @ [''0123456789'' ! (n mod 10)])"
  by pat_completeness auto
termination
  by (relation "measure id") auto

declare str_nat.simps [simp del]

definition str_int :: "int \<Rightarrow> string" where
  "str_int i = (if i < 0 then CHR ''-'' # str_nat (nat (- i)) else str_nat (nat i))"

text \<open>
  A value of Python type \<open>int | None\<close> inside an f-string: \<open>None\<close> is rendered as the
  word \<open>None\<close>.
\<close>

definition format_py :: "int option \<Rightarrow> string" where
  "format_py v = (case v of None \<Rightarrow> ''None'' | Some i \<Rightarrow> str_int i)"

section \<open>The world outside the scripts\<close>

text \<open>
  Exceptions raised by the libraries the servers call (the \<open>ssl\<close> module and pymodbus),
  with their message.
\<close>

datatype py_exception
  = FileNotFoundError string
  | SSLError string
  | OSError string

text \<open>
  A listening socket is known by what \<open>getsockname()\<close> returns, the pair of host and
  port. The server's \<open>transport\<close> attribute may lack a \<open>sockets\<close> attribute
  (\<open>None\<close> below), or have one holding a possibly empty sequence of sockets.
\<close>

datatype socket = Socket (getsockname: "string \<times> int")

datatype transport = Transport (sockets: "socket list option")

text \<open>
  What the libraries and the operating system do on one run: whether pymodbus can be
  imported and its version string; whether \<open>serve_forever(background=True)\<close> raises
  (bind failure) or returns, and then the value of the server's \<open>transport\<close> attribute
  (\<open>None\<close> for Python's \<open>None\<close>); whether \<open>shutdown()\<close> raises; and whether
  \<open>load_cert_chain\<close> and \<open>load_verify_locations\<close> raise on given file names.
\<close>

record env =
  pymodbus_importable :: bool
  pymodbus_version :: string
  serve_forever :: "py_exception + transport option"
  shutdown :: "py_exception option"
  load_cert_chain :: "string \<Rightarrow> string \<Rightarrow> py_exception option"
  load_verify_locations :: "string \<Rightarrow> py_exception option"

text \<open>
  What a run does that can be observed: lines printed (one event per call of \<open>print\<close>,
  with the stream, the text and the \<open>flush\<close> argument), signal handlers installed, the
  call that binds the socket, the shutdown of the server, and the point where the
  coroutine blocks on \<open>shutdown_event.wait()\<close>. The text of \<open>json.dumps(d)\<close> is kept as
  the dictionary \<open>d\<close> given to it, in insertion order; the traceback the interpreter
  prints for an uncaught exception is kept as that exception.
\<close>

datatype stream = stdout | stderr

datatype json = JString string | JInt int | JBool bool | JNull

datatype printed
  = Text string
  | JsonDumps "(string \<times> json) list"
  | Traceback py_exception

datatype signal = SIGTERM | SIGINT

datatype event
  = Print stream printed bool
  | AddSignalHandler signal
  | ServeForever "string \<times> int"
  | Shutdown
  | AwaitShutdown

fun is_stdout :: "event \<Rightarrow> bool" where
  "is_stdout (Print stdout t f) = True"
| "is_stdout ev = False"

fun is_stderr :: "event \<Rightarrow> bool" where
  "is_stderr (Print stderr t f) = True"
| "is_stderr ev = False"

text \<open>
  The interpreter running a script whose body is \<open>asyncio.run(coroutine)\<close>: when the
  coroutine returns the process exits with status 0; an exception that nothing catches
  is printed as a traceback on standard error and the exit status is 1.
\<close>

definition asyncio_run :: "event list \<times> py_exception option \<Rightarrow> event list \<times> int" where
  "asyncio_run r =
     (case snd r of
        None \<Rightarrow> (fst r, 0)
      | Some x \<Rightarrow> (fst r @ [Print stderr (Traceback x) False], 1))"

section \<open>The pymodbus server objects\<close>

record ModbusDeviceIdentification =
  info :: "(int \<times> string) list"

record ModbusTcpServer =
  server_context :: ModbusServerContext
  server_identity :: ModbusDeviceIdentification
  server_address :: "string \<times> int"
  server_transport :: "transport option"

section \<open>reference\_server.py: class ReferenceServer\<close>

definition ReferenceServer_VENDOR_NAME :: string where
  "ReferenceServer_VENDOR_NAME = ''ModbusKit''"

definition ReferenceServer_PRODUCT_CODE :: string where
  "ReferenceServer_PRODUCT_CODE = ''Petro-Rovenskyi''"

definition ReferenceServer_VENDOR_URL :: string where
  "ReferenceServer_VENDOR_URL = ''https://petro.rovenskyi.com''"

definition ReferenceServer_PRODUCT_NAME :: string where
  "ReferenceServer_PRODUCT_NAME = ''Reference Server''"

definition ReferenceServer_MODEL_NAME :: string where
  "ReferenceServer_MODEL_NAME = ''PyModbus Test Server''"

definition ReferenceServer_MAJOR_MINOR_REVISION :: string where
  "ReferenceServer_MAJOR_MINOR_REVISION = ''1.0.0''"

text \<open>The fields of a \<open>ReferenceServer\<close> object, and \<open>__init__\<close>.\<close>

record ReferenceServer =
  host :: string
  port :: int
  actual_port :: "int option"
  server :: "ModbusTcpServer option"

definition ReferenceServer_init :: "string \<Rightarrow> int \<Rightarrow> ReferenceServer" where
  "ReferenceServer_init h p = \<lparr> host = h, port = p, actual_port = None, server = None \<rparr>"

text \<open>The dictionary literal of \<open>_create_identity\<close>, in the order it is written.\<close>

definition ReferenceServer_create_identity :: ModbusDeviceIdentification where
  "ReferenceServer_create_identity =
     \<lparr> info = [(0x00, ReferenceServer_VENDOR_NAME),
               (0x01, ReferenceServer_PRODUCT_CODE),
               (0x02, ReferenceServer_MAJOR_MINOR_REVISION),
               (0x03, ReferenceServer_VENDOR_URL),
               (0x04, ReferenceServer_PRODUCT_NAME),
               (0x05, ReferenceServer_MODEL_NAME)] \<rparr>"

text \<open>
  \<open>start\<close>: the events, the exception raised or the value returned (of Python type
  \<open>int | None\<close>, the field \<open>actual_port\<close>), and the object afterwards. The field
  \<open>server\<close> is assigned before \<open>serve_forever\<close> is awaited, so it stays assigned when
  that call raises.
\<close>

definition ReferenceServer_start ::
  "env \<Rightarrow> ReferenceServer \<Rightarrow> event list \<times> (py_exception + int option) \<times> ReferenceServer" where
  "ReferenceServer_start e self =
     (let context = ReferenceServer_create_datastore;
          identity = ReferenceServer_create_identity;
          srv = \<lparr> server_context = context, server_identity = identity,
                  server_address = (host self, port self), server_transport = None \<rparr>;
          self1 = self\<lparr> server := Some srv \<rparr>
      in case serve_forever e of
           Inl x \<Rightarrow> ([ServeForever (host self, port self)], Inl x, self1)
         | Inr tr \<Rightarrow>
             (let self2 = self1\<lparr> server := Some (srv\<lparr> server_transport := tr \<rparr>) \<rparr>;
                  self3 = (case tr of
                             Some (Transport (Some (s # ss))) \<Rightarrow>
                               self2\<lparr> actual_port := Some (snd (getsockname s)) \<rparr>
                           | _ \<Rightarrow> self2);
                  self4 = (if actual_port self3 = None
                           then self3\<lparr> actual_port := Some (port self3) \<rparr>
                           else self3)
              in ([ServeForever (host self, port self)], Inr (actual_port self4), self4)))"

text \<open>\<open>stop\<close>: the events, the exception raised if any, and the object afterwards.\<close>

definition ReferenceServer_stop ::
  "env \<Rightarrow> ReferenceServer \<Rightarrow> event list \<times> py_exception option \<times> ReferenceServer" where
  "ReferenceServer_stop e self =
     (case server self of
        None \<Rightarrow> ([], None, self)
      | Some srv \<Rightarrow>
          (case shutdown e of
             Some x \<Rightarrow> ([Shutdown], Some x, self)
           | None \<Rightarrow> ([Shutdown], None, self\<lparr> server := None \<rparr>)))"

section \<open>reference\_server.py: main, json\_main and the script body\<close>

text \<open>
  \<open>main\<close>: the events of the run and the exception that leaves the coroutine, if any.
  The \<open>finally\<close> block runs on both paths; an exception raised inside it replaces the
  one in flight.
\<close>

definition reference_server_main ::
  "env \<Rightarrow> string \<Rightarrow> int \<Rightarrow> bool \<Rightarrow> event list \<times> py_exception option" where
  "reference_server_main e h p verbose =
     (let server0 = ReferenceServer_init h p;
          handlers = [AddSignalHandler SIGTERM, AddSignalHandler SIGINT];
          started = ReferenceServer_start e server0;
          server1 = snd (snd started);
          body = (case fst (snd started) of
                    Inl x \<Rightarrow> ([], Some x)
                  | Inr actual \<Rightarrow>
                      ([Print stdout (Text (''MODBUS_PORT='' @ format_py actual)) True]
                       @ (if verbose
                          then [Print stderr (Text (''pymodbus version: '' @ pymodbus_version e)) False,
                                Print stderr (Text (''Server listening on '' @ h @ '':''
                                                    @ format_py actual)) False,
                                Print stderr (Text ''Press Ctrl+C to stop'') False]
                          else [])
                       @ [AwaitShutdown], None));
          finally_block = (if verbose then [Print stderr (Text ''Shutting down...'') False] else []);
          stopped = ReferenceServer_stop e server1
      in (handlers @ fst started @ fst body @ finally_block @ fst stopped,
          (case fst (snd stopped) of Some x \<Rightarrow> Some x | None \<Rightarrow> snd body)))"

text \<open>The result of \<open>parse_args\<close>.\<close>

record args =
  args_host :: string
  args_port :: int
  args_verbose :: bool
  args_json :: bool

text \<open>\<open>json_main\<close> has no \<open>finally\<close>: an exception of \<open>start\<close> leaves at once.\<close>

definition reference_server_json_main :: "env \<Rightarrow> args \<Rightarrow> event list \<times> py_exception option" where
  "reference_server_json_main e a =
     (let server0 = ReferenceServer_init (args_host a) (args_port a);
          handlers = [AddSignalHandler SIGTERM, AddSignalHandler SIGINT];
          started = ReferenceServer_start e server0;
          server1 = snd (snd started)
      in case fst (snd started) of
           Inl x \<Rightarrow> (handlers @ fst started, Some x)
         | Inr p \<Rightarrow>
             (let stopped = ReferenceServer_stop e server1
              in (handlers @ fst started
                  @ [Print stdout
                       (JsonDumps [(''host'', JString (args_host a)),
                                   (''port'', (case p of None \<Rightarrow> JNull | Some i \<Rightarrow> JInt i)),
                                   (''pymodbus_version'', JString (pymodbus_version e)),
                                   (''status'', JString ''running'')]) True,
                     AwaitShutdown]
                  @ fst stopped,
                  fst (snd stopped))))"

text \<open>
  The script from its first line: the guarded import, then the body under
  \<open>if __name__ == "__main__"\<close>. The result is the events and the exit status.
\<close>

definition reference_server_script :: "env \<Rightarrow> args \<Rightarrow> event list \<times> int" where
  "reference_server_script e a =
     (if \<not> pymodbus_importable e
      then ([Print stderr
               (Text ''ERROR: pymodbus not installed. Run: pip3 install pymodbus>=3.5.0'') False],
            1)
      else if args_json a
      then asyncio_run (reference_server_json_main e a)
      else asyncio_run (reference_server_main e (args_host a) (args_port a) (args_verbose a)))"

section \<open>tls\_reference\_server.py: the ssl context\<close>

text \<open>
  The part of an \<open>ssl.SSLContext\<close> the server sets: the protocol it was created for,
  the minimum protocol version, the certificate chains loaded (certificate file and key
  file), the CA files loaded for verification, and the verification mode. A new context
  for \<open>PROTOCOL_TLS_SERVER\<close> has no chain loaded, verifies nothing and accepts the lowest
  version the library supports.
\<close>

datatype ssl_protocol = PROTOCOL_TLS_SERVER | PROTOCOL_TLS_CLIENT

datatype TLSVersion = MINIMUM_SUPPORTED | SSLv3 | TLSv1 | TLSv1_1 | TLSv1_2 | TLSv1_3

datatype VerifyMode = CERT_NONE | CERT_OPTIONAL | CERT_REQUIRED

record SSLContext =
  protocol :: ssl_protocol
  minimum_version :: TLSVersion
  cert_chains :: "(string \<times> string) list"
  verify_locations :: "string list"
  verify_mode :: VerifyMode

definition SSLContext_init :: "ssl_protocol \<Rightarrow> SSLContext" where
  "SSLContext_init pr =
     \<lparr> protocol = pr, minimum_version = MINIMUM_SUPPORTED, cert_chains = [],
       verify_locations = [], verify_mode = CERT_NONE \<rparr>"

record ModbusTlsServer = ModbusTcpServer +
  sslctx :: SSLContext

section \<open>tls\_reference\_server.py: class TLSReferenceServer\<close>

definition TLSReferenceServer_VENDOR_NAME :: string where
  "TLSReferenceServer_VENDOR_NAME = ''ModbusKit''"

definition TLSReferenceServer_PRODUCT_CODE :: string where
  "TLSReferenceServer_PRODUCT_CODE = ''Petro-Rovenskyi''"

definition TLSReferenceServer_VENDOR_URL :: string where
  "TLSReferenceServer_VENDOR_URL = ''https://petro.rovenskyi.com''"

definition TLSReferenceServer_PRODUCT_NAME :: string where
  "TLSReferenceServer_PRODUCT_NAME = ''TLS Reference Server''"

definition TLSReferenceServer_MODEL_NAME :: string where
  "TLSReferenceServer_MODEL_NAME = ''PyModbus TLS Test Server''"

definition TLSReferenceServer_MAJOR_MINOR_REVISION :: string where
  "TLSReferenceServer_MAJOR_MINOR_REVISION = ''1.0.0''"

record TLSReferenceServer =
  tls_host :: string
  tls_port :: int
  certfile :: string
  keyfile :: string
  cafile :: "string option"
  tls_actual_port :: "int option"
  tls_server :: "ModbusTlsServer option"

definition TLSReferenceServer_init ::
  "string \<Rightarrow> int \<Rightarrow> string \<Rightarrow> string \<Rightarrow> string option \<Rightarrow> TLSReferenceServer" where
  "TLSReferenceServer_init h p cf kf ca =
     \<lparr> tls_host = h, tls_port = p, certfile = cf, keyfile = kf, cafile = ca,
       tls_actual_port = None, tls_server = None \<rparr>"

text \<open>
  \<open>_create_ssl_context\<close>. The test \<open>if self.cafile\<close> is Python truthiness: \<open>None\<close> and
  the empty string both take the \<open>else\<close> branch.
\<close>

definition TLSReferenceServer_create_ssl_context ::
  "env \<Rightarrow> TLSReferenceServer \<Rightarrow> py_exception + SSLContext" where
  "TLSReferenceServer_create_ssl_context e self =
     (let context0 = SSLContext_init PROTOCOL_TLS_SERVER;
          context1 = context0\<lparr> minimum_version := TLSv1_2 \<rparr>
      in case load_cert_chain e (certfile self) (keyfile self) of
           Some x \<Rightarrow> Inl x
         | None \<Rightarrow>
             (let context2 = context1\<lparr> cert_chains :=
                               cert_chains context1 @ [(certfile self, keyfile self)] \<rparr>
              in case cafile self of
                   Some (c # cs) \<Rightarrow>
                     (case load_verify_locations e (c # cs) of
                        Some x \<Rightarrow> Inl x
                      | None \<Rightarrow>
                          Inr (context2\<lparr> verify_locations :=
                                           verify_locations context2 @ [c # cs],
                                         verify_mode := CERT_OPTIONAL \<rparr>))
                 | _ \<Rightarrow> Inr (context2\<lparr> verify_mode := CERT_NONE \<rparr>)))"

definition TLSReferenceServer_create_identity :: ModbusDeviceIdentification where
  "TLSReferenceServer_create_identity =
     \<lparr> info = [(0x00, TLSReferenceServer_VENDOR_NAME),
               (0x01, TLSReferenceServer_PRODUCT_CODE),
               (0x02, TLSReferenceServer_MAJOR_MINOR_REVISION),
               (0x03, TLSReferenceServer_VENDOR_URL),
               (0x04, TLSReferenceServer_PRODUCT_NAME),
               (0x05, TLSReferenceServer_MODEL_NAME)] \<rparr>"

text \<open>
  \<open>start\<close>: an exception of \<open>_create_ssl_context\<close> leaves before the field \<open>server\<close>
  is assigned.
\<close>

definition TLSReferenceServer_start ::
  "env \<Rightarrow> TLSReferenceServer \<Rightarrow>
     event list \<times> (py_exception + int option) \<times> TLSReferenceServer" where
  "TLSReferenceServer_start e self =
     (let context = TLSReferenceServer_create_datastore;
          identity = TLSReferenceServer_create_identity
      in case TLSReferenceServer_create_ssl_context e self of
           Inl x \<Rightarrow> ([], Inl x, self)
         | Inr ctx \<Rightarrow>
             (let srv = \<lparr> server_context = context, server_identity = identity,
                          server_address = (tls_host self, tls_port self),
                          server_transport = None, sslctx = ctx \<rparr>;
                  self1 = self\<lparr> tls_server := Some srv \<rparr>
              in case serve_forever e of
                   Inl x \<Rightarrow> ([ServeForever (tls_host self, tls_port self)], Inl x, self1)
                 | Inr tr \<Rightarrow>
                     (let self2 = self1\<lparr> tls_server := Some (srv\<lparr> server_transport := tr \<rparr>) \<rparr>;
                          self3 = (case tr of
                                     Some (Transport (Some (s # ss))) \<Rightarrow>
                                       self2\<lparr> tls_actual_port := Some (snd (getsockname s)) \<rparr>
                                   | _ \<Rightarrow> self2);
                          self4 = (if tls_actual_port self3 = None
                                   then self3\<lparr> tls_actual_port := Some (tls_port self3) \<rparr>
                                   else self3)
                      in ([ServeForever (tls_host self, tls_port self)],
                          Inr (tls_actual_port self4), self4))))"

definition TLSReferenceServer_stop ::
  "env \<Rightarrow> TLSReferenceServer \<Rightarrow> event list \<times> py_exception option \<times> TLSReferenceServer" where
  "TLSReferenceServer_stop e self =
     (case tls_server self of
        None \<Rightarrow> ([], None, self)
      | Some srv \<Rightarrow>
          (case shutdown e of
             Some x \<Rightarrow> ([Shutdown], Some x, self)
           | None \<Rightarrow> ([Shutdown], None, self\<lparr> tls_server := None \<rparr>)))"

section \<open>tls\_reference\_server.py: main, json\_main and the script body\<close>

definition tls_reference_server_main ::
  "env \<Rightarrow> string \<Rightarrow> int \<Rightarrow> string \<Rightarrow> string \<Rightarrow> string option \<Rightarrow> bool \<Rightarrow>
     event list \<times> py_exception option" where
  "tls_reference_server_main e h p cf kf ca verbose =
     (let server0 = TLSReferenceServer_init h p cf kf ca;
          handlers = [AddSignalHandler SIGTERM, AddSignalHandler SIGINT];
          started = TLSReferenceServer_start e server0;
          server1 = snd (snd started);
          body = (case fst (snd started) of
                    Inl x \<Rightarrow> ([], Some x)
                  | Inr actual \<Rightarrow>
                      ([Print stdout (Text (''MODBUS_TLS_PORT='' @ format_py actual)) True]
                       @ (if verbose
                          then [Print stderr (Text (''pymodbus version: '' @ pymodbus_version e)) False,
                                Print stderr (Text (''TLS Server listening on '' @ h @ '':''
                                                    @ format_py actual)) False,
                                Print stderr (Text (''Certificate: '' @ cf)) False,
                                Print stderr (Text ''Press Ctrl+C to stop'') False]
                          else [])
                       @ [AwaitShutdown], None));
          finally_block = (if verbose then [Print stderr (Text ''Shutting down...'') False] else []);
          stopped = TLSReferenceServer_stop e server1
      in (handlers @ fst started @ fst body @ finally_block @ fst stopped,
          (case fst (snd stopped) of Some x \<Rightarrow> Some x | None \<Rightarrow> snd body)))"

record tls_args = args +
  args_certfile :: string
  args_keyfile :: string
  args_cafile :: "string option"

definition tls_reference_server_json_main ::
  "env \<Rightarrow> tls_args \<Rightarrow> event list \<times> py_exception option" where
  "tls_reference_server_json_main e a =
     (let server0 = TLSReferenceServer_init (args_host a) (args_port a)
                      (args_certfile a) (args_keyfile a) (args_cafile a);
          handlers = [AddSignalHandler SIGTERM, AddSignalHandler SIGINT];
          started = TLSReferenceServer_start e server0;
          server1 = snd (snd started)
      in case fst (snd started) of
           Inl x \<Rightarrow> (handlers @ fst started, Some x)
         | Inr p \<Rightarrow>
             (let stopped = TLSReferenceServer_stop e server1
              in (handlers @ fst started
                  @ [Print stdout
                       (JsonDumps [(''host'', JString (args_host a)),
                                   (''port'', (case p of None \<Rightarrow> JNull | Some i \<Rightarrow> JInt i)),
                                   (''tls'', JBool True),
                                   (''certfile'', JString (args_certfile a)),
                                   (''pymodbus_version'', JString (pymodbus_version e)),
                                   (''status'', JString ''running'')]) True,
                     AwaitShutdown]
                  @ fst stopped,
                  fst (snd stopped))))"

definition tls_reference_server_script :: "env \<Rightarrow> tls_args \<Rightarrow> event list \<times> int" where
  "tls_reference_server_script e a =
     (if \<not> pymodbus_importable e
      then ([Print stderr
               (Text ''ERROR: pymodbus not installed. Run: pip3 install pymodbus>=3.5.0'') False],
            1)
      else if args_json a
      then asyncio_run (tls_reference_server_json_main e a)
      else asyncio_run (tls_reference_server_main e (args_host a) (args_port a)
                          (args_certfile a) (args_keyfile a) (args_cafile a) (args_verbose a)))"

section \<open>Observing a run, and sequences of method calls\<close>

text \<open>The lines on standard output, and the part of a run before it blocks.\<close>

definition stdout_of :: "event list \<Rightarrow> event list" where
  "stdout_of tr = filter is_stdout tr"

definition before_blocking :: "event list \<Rightarrow> event list" where
  "before_blocking tr = takeWhile (\<lambda>ev. ev \<noteq> AwaitShutdown) tr"

text \<open>
  The port \<open>start\<close> reads from the transport: that of the first socket, when the
  transport is not \<open>None\<close>, has a \<open>sockets\<close> attribute and that sequence is not empty.
\<close>

definition discovered_port :: "transport option \<Rightarrow> int option" where
  "discovered_port tr =
     (case tr of
        Some (Transport (Some (s # ss))) \<Rightarrow> Some (snd (getsockname s))
      | _ \<Rightarrow> None)"

text \<open>
  A server object lives through a sequence of calls of its two methods, each in the
  world of its moment.
\<close>

datatype call = Start env | Stop env

fun ReferenceServer_call :: "call \<Rightarrow> ReferenceServer \<Rightarrow> ReferenceServer" where
  "ReferenceServer_call (Start e) self = snd (snd (ReferenceServer_start e self))"
| "ReferenceServer_call (Stop e) self = snd (snd (ReferenceServer_stop e self))"

definition ReferenceServer_calls :: "call list \<Rightarrow> ReferenceServer \<Rightarrow> ReferenceServer" where
  "ReferenceServer_calls cs self = fold ReferenceServer_call cs self"

fun TLSReferenceServer_call :: "call \<Rightarrow> TLSReferenceServer \<Rightarrow> TLSReferenceServer" where
  "TLSReferenceServer_call (Start e) self = snd (snd (TLSReferenceServer_start e self))"
| "TLSReferenceServer_call (Stop e) self = snd (snd (TLSReferenceServer_stop e self))"

definition TLSReferenceServer_calls ::
  "call list \<Rightarrow> TLSReferenceServer \<Rightarrow> TLSReferenceServer" where
  "TLSReferenceServer_calls cs self = fold TLSReferenceServer_call cs self"

text \<open>
  What holds of a server object at every moment of its life: the pymodbus server it
  holds, if any, was built from the identity and the datastore of its class and, for the
  TLS server, from a context configured by \<open>_create_ssl_context\<close> out of the object's
  own file names.
\<close>

definition ReferenceServer_inv :: "ReferenceServer \<Rightarrow> bool" where
  "ReferenceServer_inv self =
     (case server self of
        None \<Rightarrow> True
      | Some srv \<Rightarrow>
          server_identity srv = ReferenceServer_create_identity
          \<and> server_context srv = ReferenceServer_create_datastore)"

definition TLSReferenceServer_inv :: "TLSReferenceServer \<Rightarrow> bool" where
  "TLSReferenceServer_inv self =
     (case tls_server self of
        None \<Rightarrow> True
      | Some srv \<Rightarrow>
          server_identity srv = TLSReferenceServer_create_identity
          \<and> server_context srv = TLSReferenceServer_create_datastore
          \<and> protocol (sslctx srv) = PROTOCOL_TLS_SERVER
          \<and> minimum_version (sslctx srv) = TLSv1_2
          \<and> cert_chains (sslctx srv) = [(certfile self, keyfile self)]
          \<and> verify_mode (sslctx srv)
              = (case cafile self of Some (c # cs) \<Rightarrow> CERT_OPTIONAL | _ \<Rightarrow> CERT_NONE))"

text \<open>
  Sample worlds for running the model: one where everything succeeds and the listening
  socket reports port 50123, one where the transport has no \<open>sockets\<close> attribute, one
  where the certificate files are missing, and one without pymodbus.
\<close>

definition world_bound :: env where
  "world_bound =
     \<lparr> pymodbus_importable = True, pymodbus_version = ''3.6.9'',
       serve_forever = Inr (Some (Transport (Some [Socket (''127.0.0.1'', 50123)]))),
       shutdown = None,
       load_cert_chain = (\<lambda>cf kf. None),
       load_verify_locations = (\<lambda>ca. None) \<rparr>"

definition world_no_sockets :: env where
  "world_no_sockets = world_bound\<lparr> serve_forever := Inr (Some (Transport None)) \<rparr>"

definition world_missing_cert :: env where
  "world_missing_cert = world_bound\<lparr> load_cert_chain := (\<lambda>cf kf. Some (FileNotFoundError cf)) \<rparr>"

definition world_no_pymodbus :: env where
  "world_no_pymodbus = world_bound\<lparr> pymodbus_importable := False \<rparr>"

section \<open>Facts about ranges and slices\<close>

lemma length_range_py: "length (range_py n) = nat n"
  by (simp add: range_py_def)

lemma nth_range_py: "i < nat n \<Longrightarrow> range_py n ! i = int i"
  by (simp add: range_py_def)

lemma slice_upt: "a + q \<le> n \<Longrightarrow> take q (drop a [0..<n]) = [a..<a + q]"
  by (simp add: drop_upt take_upt)

lemma slice_range_py:
  "a + q \<le> nat n \<Longrightarrow> take q (drop a (map f (range_py n))) = map (\<lambda>k. f (int k)) [a..<a + q]"
  by (simp add: range_py_def take_map drop_map slice_upt del: drop_upt take_upt)

lemma ReferenceServer_spaces:
  "Coils ReferenceServer_create_datastore =
     \<lparr> block_address = 0, block_values = map (\<lambda>i. i mod 2 = 0) (range_py 1000) \<rparr>"
  "DiscreteInputs ReferenceServer_create_datastore =
     \<lparr> block_address = 0, block_values = map (\<lambda>i. i < 100) (range_py 1000) \<rparr>"
  "HoldingRegisters ReferenceServer_create_datastore =
     \<lparr> block_address = 0, block_values = range_py 1000 \<rparr>"
  "InputRegisters ReferenceServer_create_datastore =
     \<lparr> block_address = 0, block_values = map (\<lambda>i. i * 10) (range_py 1000) \<rparr>"
  by (simp_all add: ReferenceServer_create_datastore_def Let_def
      Coils_def DiscreteInputs_def HoldingRegisters_def InputRegisters_def
      ReferenceServer_COIL_COUNT_def ReferenceServer_DISCRETE_INPUT_COUNT_def
      ReferenceServer_HOLDING_REGISTER_COUNT_def ReferenceServer_INPUT_REGISTER_COUNT_def)

lemma TLSReferenceServer_spaces:
  "Coils TLSReferenceServer_create_datastore =
     \<lparr> block_address = 0, block_values = map (\<lambda>i. i mod 2 = 0) (range_py 1000) \<rparr>"
  "DiscreteInputs TLSReferenceServer_create_datastore =
     \<lparr> block_address = 0, block_values = map (\<lambda>i. i < 100) (range_py 1000) \<rparr>"
  "HoldingRegisters TLSReferenceServer_create_datastore =
     \<lparr> block_address = 0, block_values = range_py 1000 \<rparr>"
  "InputRegisters TLSReferenceServer_create_datastore =
     \<lparr> block_address = 0, block_values = map (\<lambda>i. i * 10) (range_py 1000) \<rparr>"
  by (simp_all add: TLSReferenceServer_create_datastore_def Let_def
      Coils_def DiscreteInputs_def HoldingRegisters_def InputRegisters_def
      TLSReferenceServer_COIL_COUNT_def TLSReferenceServer_DISCRETE_INPUT_COUNT_def
      TLSReferenceServer_HOLDING_REGISTER_COUNT_def TLSReferenceServer_INPUT_REGISTER_COUNT_def)

lemma nth_spaces_ref:
  assumes "i < 1000"
  shows "block_values (Coils ReferenceServer_create_datastore) ! i = (int i mod 2 = 0)"
    and "block_values (DiscreteInputs ReferenceServer_create_datastore) ! i = (int i < 100)"
    and "block_values (HoldingRegisters ReferenceServer_create_datastore) ! i = int i"
    and "block_values (InputRegisters ReferenceServer_create_datastore) ! i = int i * 10"
  using assms by (simp_all add: ReferenceServer_spaces length_range_py nth_range_py)

lemma nth_spaces_tls:
  assumes "i < 1000"
  shows "block_values (Coils TLSReferenceServer_create_datastore) ! i = (int i mod 2 = 0)"
    and "block_values (DiscreteInputs TLSReferenceServer_create_datastore) ! i = (int i < 100)"
    and "block_values (HoldingRegisters TLSReferenceServer_create_datastore) ! i = int i"
    and "block_values (InputRegisters TLSReferenceServer_create_datastore) ! i = int i * 10"
  using assms by (simp_all add: TLSReferenceServer_spaces length_range_py nth_range_py)

lemma length_spaces_ref:
  "length (block_values (Coils ReferenceServer_create_datastore)) = 1000"
  "length (block_values (DiscreteInputs ReferenceServer_create_datastore)) = 1000"
  "length (block_values (HoldingRegisters ReferenceServer_create_datastore)) = 1000"
  "length (block_values (InputRegisters ReferenceServer_create_datastore)) = 1000"
  by (simp_all add: ReferenceServer_spaces length_range_py)

lemma length_spaces_tls:
  "length (block_values (Coils TLSReferenceServer_create_datastore)) = 1000"
  "length (block_values (DiscreteInputs TLSReferenceServer_create_datastore)) = 1000"
  "length (block_values (HoldingRegisters TLSReferenceServer_create_datastore)) = 1000"
  "length (block_values (InputRegisters TLSReferenceServer_create_datastore)) = 1000"
  by (simp_all add: TLSReferenceServer_spaces length_range_py)

lemma read_seeded_map:
  assumes "0 \<le> a + 1" "0 \<le> q" "a + 1 + q \<le> n"
  shows "read \<lparr> block_address = 0, block_values = map f (range_py n) \<rparr> a q
         = Inr (map (\<lambda>k. f (int k)) [nat (a + 1)..<nat (a + 1) + nat q])"
proof -
  have "nat (a + 1) + nat q \<le> nat n" using assms by linarith
  then have "take (nat q) (drop (nat (a + 1)) (map f (range_py n)))
             = map (\<lambda>k. f (int k)) [nat (a + 1)..<nat (a + 1) + nat q]"
    by (rule slice_range_py)
  then show ?thesis
    using assms
    by (simp add: read_def ModbusDeviceContext_getValues_def
        ModbusSequentialDataBlock_getValues_def Let_def length_range_py)
qed

lemma read_seeded_id:
  assumes "0 \<le> a + 1" "0 \<le> q" "a + 1 + q \<le> n"
  shows "read \<lparr> block_address = 0, block_values = range_py n \<rparr> a q
         = Inr (map int [nat (a + 1)..<nat (a + 1) + nat q])"
  using read_seeded_map [OF assms, of "\<lambda>i. i"] by simp

lemma read_seeded_ref:
  "read (HoldingRegisters ReferenceServer_create_datastore) 0 5 = Inr [1, 2, 3, 4, 5]"
  "read (InputRegisters ReferenceServer_create_datastore) 0 5 = Inr [10, 20, 30, 40, 50]"
  "read (Coils ReferenceServer_create_datastore) 0 4 = Inr [False, True, False, True]"
  "read (DiscreteInputs ReferenceServer_create_datastore) 99 2 = Inr [False, False]"
  by (simp_all add: ReferenceServer_spaces read_seeded_map read_seeded_id upt_rec)

lemma read_seeded_tls:
  "read (HoldingRegisters TLSReferenceServer_create_datastore) 0 5 = Inr [1, 2, 3, 4, 5]"
  "read (InputRegisters TLSReferenceServer_create_datastore) 0 5 = Inr [10, 20, 30, 40, 50]"
  "read (Coils TLSReferenceServer_create_datastore) 0 4 = Inr [False, True, False, True]"
  "read (DiscreteInputs TLSReferenceServer_create_datastore) 99 2 = Inr [False, False]"
  by (simp_all add: TLSReferenceServer_spaces read_seeded_map read_seeded_id upt_rec)

lemma read_block_address:
  "read \<lparr> block_address = 1, block_values = [10, 11, 12 :: int] \<rparr> 0 2 = Inr [10, 11]"
  "read \<lparr> block_address = 0, block_values = [10, 11, 12 :: int] \<rparr> 0 2 = Inr [11, 12]"
  "read \<lparr> block_address = 0, block_values = [10, 11, 12 :: int] \<rparr> 2 1 = Inl IllegalDataAddress"
  by (simp_all add: read_def ModbusDeviceContext_getValues_def
      ModbusSequentialDataBlock_getValues_def Let_def)

lemma ball_pairI: "P a \<Longrightarrow> P b \<Longrightarrow> \<forall>x\<in>{a, b}. P x"
  by simp

section \<open>Facts about the printed port and the traces of main\<close>

lemma str_nat_digits: "set (str_nat n) \<subseteq> set ''0123456789''"
proof (induction n rule: str_nat.induct)
  case (1 n)
  have d: "\<And>k. k < 10 \<Longrightarrow> ''0123456789'' ! k \<in> set ''0123456789''"
    by (rule nth_mem) simp
  show ?case
  proof (cases "n < 10")
    case True
    then show ?thesis using d [of n] by (subst str_nat.simps) simp
  next
    case False
    have "n mod 10 < 10" by simp
    then show ?thesis using False "1.IH" d [of "n mod 10"]
      by (subst str_nat.simps) simp
  qed
qed

lemma format_py_no_newline: "CHR 0x0A \<notin> set (format_py r)"
proof (cases r)
  case None
  then show ?thesis by (simp add: format_py_def)
next
  case (Some i)
  have "CHR 0x0A \<notin> set ''0123456789''" by simp
  then have "CHR 0x0A \<notin> set (str_nat k)" for k using str_nat_digits [of k] by blast
  then show ?thesis using Some by (simp add: format_py_def str_int_def)
qed

lemma ReferenceServer_start_events:
  "fst (ReferenceServer_start e self) = [ServeForever (host self, port self)]"
  by (simp add: ReferenceServer_start_def Let_def split: sum.splits)

lemma ReferenceServer_stop_events:
  "fst (ReferenceServer_stop e self) = (if server self = None then [] else [Shutdown])"
  by (simp add: ReferenceServer_stop_def split: option.splits)

lemma TLSReferenceServer_start_events:
  "fst (TLSReferenceServer_start e self) =
     (case TLSReferenceServer_create_ssl_context e self of
        Inl x \<Rightarrow> []
      | Inr c \<Rightarrow> [ServeForever (tls_host self, tls_port self)])"
  by (simp add: TLSReferenceServer_start_def Let_def split: sum.splits)

lemma TLSReferenceServer_stop_events:
  "fst (TLSReferenceServer_stop e self) = (if tls_server self = None then [] else [Shutdown])"
  by (simp add: TLSReferenceServer_stop_def split: option.splits)

lemma TLSReferenceServer_start_ok_events:
  "fst (snd (TLSReferenceServer_start e self)) = Inr r \<Longrightarrow>
   fst (TLSReferenceServer_start e self) = [ServeForever (tls_host self, tls_port self)]"
  by (simp add: TLSReferenceServer_start_def Let_def split: sum.splits)

lemma reference_server_main_trace:
  assumes "fst (snd (ReferenceServer_start e (ReferenceServer_init h p))) = Inr r"
  shows "fst (reference_server_main e h p v) =
     [AddSignalHandler SIGTERM, AddSignalHandler SIGINT, ServeForever (h, p),
      Print stdout (Text (''MODBUS_PORT='' @ format_py r)) True]
     @ (if v then [Print stderr (Text (''pymodbus version: '' @ pymodbus_version e)) False,
                   Print stderr (Text (''Server listening on '' @ h @ '':'' @ format_py r)) False,
                   Print stderr (Text ''Press Ctrl+C to stop'') False]
        else [])
     @ [AwaitShutdown]
     @ (if v then [Print stderr (Text ''Shutting down...'') False] else [])
     @ fst (ReferenceServer_stop e (snd (snd (ReferenceServer_start e (ReferenceServer_init h p)))))"
  using assms
  by (simp add: reference_server_main_def Let_def ReferenceServer_start_events
      ReferenceServer_init_def)

lemma tls_reference_server_main_trace:
  assumes "fst (snd (TLSReferenceServer_start e (TLSReferenceServer_init h p cf kf ca))) = Inr r"
  shows "fst (tls_reference_server_main e h p cf kf ca v) =
     [AddSignalHandler SIGTERM, AddSignalHandler SIGINT, ServeForever (h, p),
      Print stdout (Text (''MODBUS_TLS_PORT='' @ format_py r)) True]
     @ (if v then [Print stderr (Text (''pymodbus version: '' @ pymodbus_version e)) False,
                   Print stderr (Text (''TLS Server listening on '' @ h @ '':'' @ format_py r)) False,
                   Print stderr (Text (''Certificate: '' @ cf)) False,
                   Print stderr (Text ''Press Ctrl+C to stop'') False]
        else [])
     @ [AwaitShutdown]
     @ (if v then [Print stderr (Text ''Shutting down...'') False] else [])
     @ fst (TLSReferenceServer_stop e
              (snd (snd (TLSReferenceServer_start e (TLSReferenceServer_init h p cf kf ca)))))"
  using assms TLSReferenceServer_start_ok_events [OF assms]
  by (simp add: tls_reference_server_main_def Let_def TLSReferenceServer_init_def)

section \<open>The seeded datastore\<close>

text \<open>
  The lists \<open>_create_datastore\<close> builds, in the plaintext and in the TLS server,
  follow the seeding policy at every list index: each of the four has 1000 entries, and
  at index \<open>i\<close> the coil is \<open>i % 2 == 0\<close>, the discrete input is \<open>i < 100\<close>, the
  holding register is \<open>i\<close> and the input register is \<open>i * 10\<close>. Each block is given
  the start address 0.
\<close>

lemma seeded_lists_follow_policy:
  "\<forall>ds \<in> {ReferenceServer_create_datastore, TLSReferenceServer_create_datastore}.
     (\<forall>i<1000. block_values (Coils ds) ! i = (int i mod 2 = 0)
              \<and> block_values (DiscreteInputs ds) ! i = (int i < 100)
              \<and> block_values (HoldingRegisters ds) ! i = int i
              \<and> block_values (InputRegisters ds) ! i = int i * 10)
     \<and> length (block_values (Coils ds)) = 1000
     \<and> length (block_values (DiscreteInputs ds)) = 1000
     \<and> length (block_values (HoldingRegisters ds)) = 1000
     \<and> length (block_values (InputRegisters ds)) = 1000
     \<and> block_address (Coils ds) = 0
     \<and> block_address (DiscreteInputs ds) = 0
     \<and> block_address (HoldingRegisters ds) = 0
     \<and> block_address (InputRegisters ds) = 0"
  (is "\<forall>ds \<in> _. ?P ds")
proof -
  have r: "?P ReferenceServer_create_datastore"
    using nth_spaces_ref length_spaces_ref by (simp add: ReferenceServer_spaces)
  have t: "?P TLSReferenceServer_create_datastore"
    using nth_spaces_tls length_spaces_tls by (simp add: TLSReferenceServer_spaces)
  show ?thesis by (rule ball_pairI) (fact r, fact t)
qed

text \<open>
  Read through the store, every register is one address off the documented pattern
  (\<open>Holding Registers: sequential values 0, 1, 2, ...\<close>,
  \<open>Input Registers: values = address * 10\<close>): address \<open>a\<close> answers with the list
  entry \<open>a + 1\<close>, and the last list entry's address, 999, cannot be read.
\<close>

lemma read_seeded_register:
  assumes "0 \<le> a" "a < 999"
  shows "read (HoldingRegisters ReferenceServer_create_datastore) a 1 = Inr [a + 1]"
    and "read (InputRegisters ReferenceServer_create_datastore) a 1 = Inr [(a + 1) * 10]"
    and "read (HoldingRegisters TLSReferenceServer_create_datastore) a 1 = Inr [a + 1]"
    and "read (InputRegisters TLSReferenceServer_create_datastore) a 1 = Inr [(a + 1) * 10]"
  using assms
  by (simp_all add: ReferenceServer_spaces TLSReferenceServer_spaces
      read_seeded_map read_seeded_id)

lemma read_seeded_last:
  "read (HoldingRegisters ReferenceServer_create_datastore) 999 1 = Inl IllegalDataAddress"
  "read (HoldingRegisters TLSReferenceServer_create_datastore) 999 1 = Inl IllegalDataAddress"
  by (simp_all add: ReferenceServer_spaces TLSReferenceServer_spaces read_def
      ModbusDeviceContext_getValues_def ModbusSequentialDataBlock_getValues_def
      Let_def length_range_py)

text \<open>
  Claim C1 says that the seeding is the reference policy and that, consequently, reading
  the seeded store yields \<open>HoldingRegisters.read(0,5) = [0,1,2,3,4]\<close>,
  \<open>InputRegisters.read(0,5) = [0,10,20,30,40]\<close>,
  \<open>Coils.read(0,4) = [true,false,true,false]\<close> and
  \<open>DiscreteInputs.read(99,2) = [true,false]\<close>. The store the code builds, in the
  plaintext and in the TLS server, answers these four reads with \<open>[1,2,3,4,5]\<close>,
  \<open>[10,20,30,40,50]\<close>, \<open>[false,true,false,true]\<close> and \<open>[false,false]\<close>: the blocks
  start at address 0 and the device context reads one entry further.
\<close>

theorem seeded_store_reads_one_off:
  "read (HoldingRegisters ReferenceServer_create_datastore) 0 5 = Inr [1, 2, 3, 4, 5]
   \<and> read (InputRegisters ReferenceServer_create_datastore) 0 5 = Inr [10, 20, 30, 40, 50]
   \<and> read (Coils ReferenceServer_create_datastore) 0 4 = Inr [False, True, False, True]
   \<and> read (DiscreteInputs ReferenceServer_create_datastore) 99 2 = Inr [False, False]
   \<and> read (HoldingRegisters TLSReferenceServer_create_datastore) 0 5 = Inr [1, 2, 3, 4, 5]
   \<and> read (InputRegisters TLSReferenceServer_create_datastore) 0 5 = Inr [10, 20, 30, 40, 50]
   \<and> read (Coils TLSReferenceServer_create_datastore) 0 4 = Inr [False, True, False, True]
   \<and> read (DiscreteInputs TLSReferenceServer_create_datastore) 99 2 = Inr [False, False]
   \<and> read (HoldingRegisters ReferenceServer_create_datastore) 0 5 \<noteq> Inr [0, 1, 2, 3, 4]
   \<and> read (InputRegisters ReferenceServer_create_datastore) 0 5 \<noteq> Inr [0, 10, 20, 30, 40]
   \<and> read (Coils ReferenceServer_create_datastore) 0 4 \<noteq> Inr [True, False, True, False]
   \<and> read (DiscreteInputs ReferenceServer_create_datastore) 99 2 \<noteq> Inr [True, False]"
  by (simp add: read_seeded_ref read_seeded_tls)

text \<open>
  Claim C4. The TLS server and the plaintext server build the same datastore: the two
  seeding functions return equal server contexts, so the four register spaces have the
  same sizes and the same value at every address, and a read of any space at any
  address and quantity gives the same result on either.
\<close>

theorem tls_datastore_equals_plaintext:
  "TLSReferenceServer_create_datastore = ReferenceServer_create_datastore
   \<and> read (Coils TLSReferenceServer_create_datastore) a q
       = read (Coils ReferenceServer_create_datastore) a q
   \<and> read (DiscreteInputs TLSReferenceServer_create_datastore) a q
       = read (DiscreteInputs ReferenceServer_create_datastore) a q
   \<and> read (HoldingRegisters TLSReferenceServer_create_datastore) a q
       = read (HoldingRegisters ReferenceServer_create_datastore) a q
   \<and> read (InputRegisters TLSReferenceServer_create_datastore) a q
       = read (InputRegisters ReferenceServer_create_datastore) a q"
proof -
  have "TLSReferenceServer_create_datastore = ReferenceServer_create_datastore"
    by (simp add: TLSReferenceServer_create_datastore_def ReferenceServer_create_datastore_def
        TLSReferenceServer_COIL_COUNT_def TLSReferenceServer_DISCRETE_INPUT_COUNT_def
        TLSReferenceServer_HOLDING_REGISTER_COUNT_def TLSReferenceServer_INPUT_REGISTER_COUNT_def
        ReferenceServer_COIL_COUNT_def ReferenceServer_DISCRETE_INPUT_COUNT_def
        ReferenceServer_HOLDING_REGISTER_COUNT_def ReferenceServer_INPUT_REGISTER_COUNT_def)
  then show ?thesis by simp
qed

section \<open>The port line\<close>

lemma stdout_of_simps:
  "stdout_of [] = []"
  "stdout_of (Print stdout t f # tr) = Print stdout t f # stdout_of tr"
  "stdout_of (Print stderr t f # tr) = stdout_of tr"
  "stdout_of (AddSignalHandler sg # tr) = stdout_of tr"
  "stdout_of (ServeForever ad # tr) = stdout_of tr"
  "stdout_of (Shutdown # tr) = stdout_of tr"
  "stdout_of (AwaitShutdown # tr) = stdout_of tr"
  "stdout_of (tr @ tr') = stdout_of tr @ stdout_of tr'"
  by (simp_all add: stdout_of_def)

lemma before_blocking_simps:
  "before_blocking [] = []"
  "before_blocking (Print st t f # tr) = Print st t f # before_blocking tr"
  "before_blocking (AddSignalHandler sg # tr) = AddSignalHandler sg # before_blocking tr"
  "before_blocking (ServeForever ad # tr) = ServeForever ad # before_blocking tr"
  "before_blocking (Shutdown # tr) = Shutdown # before_blocking tr"
  "before_blocking (AwaitShutdown # tr) = []"
  by (simp_all add: before_blocking_def)

lemma world_bound_start:
  "fst (snd (ReferenceServer_start world_bound (ReferenceServer_init ''127.0.0.1'' 0)))
     = Inr (Some 50123)"
  by (simp add: ReferenceServer_start_def world_bound_def ReferenceServer_init_def Let_def)

lemma world_bound_tls_start:
  "fst (snd (TLSReferenceServer_start world_bound
       (TLSReferenceServer_init ''127.0.0.1'' 0 ''certs/server.crt'' ''certs/server.key'' None)))
     = Inr (Some 50123)"
  by (simp add: TLSReferenceServer_start_def TLSReferenceServer_create_ssl_context_def
      world_bound_def TLSReferenceServer_init_def Let_def)

lemma format_py_50123: "format_py (Some 50123) = ''50123''"
  by (simp add: format_py_def str_int_def str_nat.simps)

text \<open>
  Claim C2. When \<open>start\<close> returns (the bind succeeded), \<open>main\<close> prints exactly one line
  on standard output in the whole run, with \<open>flush=True\<close>: \<open>MODBUS_PORT=<port>\<close> in the
  plaintext server and \<open>MODBUS_TLS_PORT=<port>\<close> in the TLS server, where \<open><port>\<close> is
  the value \<open>start\<close> returned. That line is printed before the run blocks waiting for
  the shutdown signal, and its text holds no line break.
\<close>

theorem port_line_before_blocking:
  "(fst (snd (ReferenceServer_start e (ReferenceServer_init h p))) = Inr r \<longrightarrow>
      stdout_of (fst (reference_server_main e h p v))
        = [Print stdout (Text (''MODBUS_PORT='' @ format_py r)) True]
    \<and> stdout_of (before_blocking (fst (reference_server_main e h p v)))
        = [Print stdout (Text (''MODBUS_PORT='' @ format_py r)) True]
    \<and> AwaitShutdown \<in> set (fst (reference_server_main e h p v))
    \<and> CHR 0x0A \<notin> set (''MODBUS_PORT='' @ format_py r))
   \<and> (fst (snd (TLSReferenceServer_start e (TLSReferenceServer_init h p cf kf ca))) = Inr r' \<longrightarrow>
      stdout_of (fst (tls_reference_server_main e h p cf kf ca v))
        = [Print stdout (Text (''MODBUS_TLS_PORT='' @ format_py r')) True]
    \<and> stdout_of (before_blocking (fst (tls_reference_server_main e h p cf kf ca v)))
        = [Print stdout (Text (''MODBUS_TLS_PORT='' @ format_py r')) True]
    \<and> AwaitShutdown \<in> set (fst (tls_reference_server_main e h p cf kf ca v))
    \<and> CHR 0x0A \<notin> set (''MODBUS_TLS_PORT='' @ format_py r'))"
proof (intro conjI impI)
  assume a: "fst (snd (ReferenceServer_start e (ReferenceServer_init h p))) = Inr r"
  note t = reference_server_main_trace [OF a, of v]
  show "stdout_of (fst (reference_server_main e h p v))
        = [Print stdout (Text (''MODBUS_PORT='' @ format_py r)) True]"
    by (simp add: t stdout_of_simps ReferenceServer_stop_events)
  show "stdout_of (before_blocking (fst (reference_server_main e h p v)))
        = [Print stdout (Text (''MODBUS_PORT='' @ format_py r)) True]"
    by (simp add: t stdout_of_simps before_blocking_simps)
  show "AwaitShutdown \<in> set (fst (reference_server_main e h p v))"
    by (simp add: t)
  show "CHR 0x0A \<notin> set (''MODBUS_PORT='' @ format_py r)"
    using format_py_no_newline [of r] by simp
next
  assume a: "fst (snd (TLSReferenceServer_start e (TLSReferenceServer_init h p cf kf ca))) = Inr r'"
  note t = tls_reference_server_main_trace [OF a, of v]
  show "stdout_of (fst (tls_reference_server_main e h p cf kf ca v))
        = [Print stdout (Text (''MODBUS_TLS_PORT='' @ format_py r')) True]"
    by (simp add: t stdout_of_simps TLSReferenceServer_stop_events)
  show "stdout_of (before_blocking (fst (tls_reference_server_main e h p cf kf ca v)))
        = [Print stdout (Text (''MODBUS_TLS_PORT='' @ format_py r')) True]"
    by (simp add: t stdout_of_simps before_blocking_simps)
  show "AwaitShutdown \<in> set (fst (tls_reference_server_main e h p cf kf ca v))"
    by (simp add: t)
  show "CHR 0x0A \<notin> set (''MODBUS_TLS_PORT='' @ format_py r')"
    using format_py_no_newline [of r'] by simp
qed

theorem port_line_before_blocking_witness:
  "fst (snd (ReferenceServer_start world_bound (ReferenceServer_init ''127.0.0.1'' 0)))
     = Inr (Some 50123)
   \<and> stdout_of (fst (reference_server_main world_bound ''127.0.0.1'' 0 True))
       = [Print stdout (Text ''MODBUS_PORT=50123'') True]
   \<and> fst (snd (TLSReferenceServer_start world_bound
       (TLSReferenceServer_init ''127.0.0.1'' 0 ''certs/server.crt'' ''certs/server.key'' None)))
     = Inr (Some 50123)
   \<and> stdout_of (fst (tls_reference_server_main world_bound ''127.0.0.1'' 0
                       ''certs/server.crt'' ''certs/server.key'' None True))
       = [Print stdout (Text ''MODBUS_TLS_PORT=50123'') True]"
  using port_line_before_blocking [of world_bound "''127.0.0.1''" 0 "Some 50123" True
      "''certs/server.crt''" "''certs/server.key''" None "Some 50123"]
    world_bound_start world_bound_tls_start format_py_50123
  by simp

section \<open>The JSON line\<close>

lemma reference_server_json_main_trace:
  assumes "fst (snd (ReferenceServer_start e (ReferenceServer_init (args_host a) (args_port a))))
           = Inr r"
  shows "fst (reference_server_json_main e a) =
     [AddSignalHandler SIGTERM, AddSignalHandler SIGINT,
      ServeForever (args_host a, args_port a),
      Print stdout
        (JsonDumps [(''host'', JString (args_host a)),
                    (''port'', (case r of None \<Rightarrow> JNull | Some i \<Rightarrow> JInt i)),
                    (''pymodbus_version'', JString (pymodbus_version e)),
                    (''status'', JString ''running'')]) True,
      AwaitShutdown]
     @ fst (ReferenceServer_stop e
              (snd (snd (ReferenceServer_start e
                           (ReferenceServer_init (args_host a) (args_port a))))))"
  using assms
  by (simp add: reference_server_json_main_def Let_def ReferenceServer_start_events
      ReferenceServer_init_def)

lemma tls_reference_server_json_main_trace:
  assumes "fst (snd (TLSReferenceServer_start e
             (TLSReferenceServer_init (args_host a) (args_port a)
                (args_certfile a) (args_keyfile a) (args_cafile a)))) = Inr r"
  shows "fst (tls_reference_server_json_main e a) =
     [AddSignalHandler SIGTERM, AddSignalHandler SIGINT,
      ServeForever (args_host a, args_port a),
      Print stdout
        (JsonDumps [(''host'', JString (args_host a)),
                    (''port'', (case r of None \<Rightarrow> JNull | Some i \<Rightarrow> JInt i)),
                    (''tls'', JBool True),
                    (''certfile'', JString (args_certfile a)),
                    (''pymodbus_version'', JString (pymodbus_version e)),
                    (''status'', JString ''running'')]) True,
      AwaitShutdown]
     @ fst (TLSReferenceServer_stop e
              (snd (snd (TLSReferenceServer_start e
                 (TLSReferenceServer_init (args_host a) (args_port a)
                    (args_certfile a) (args_keyfile a) (args_cafile a))))))"
  using assms TLSReferenceServer_start_ok_events [OF assms]
  by (simp add: tls_reference_server_json_main_def Let_def TLSReferenceServer_init_def)

text \<open>
  Claim C8. In \<open>--json\<close> mode, when \<open>start\<close> returns, each server prints exactly one
  line on standard output in the whole run, with \<open>flush=True\<close>: the JSON text of one
  object, whose key \<open>host\<close> holds the configured host, whose key \<open>port\<close> holds the
  value \<open>start\<close> returned and whose key \<open>status\<close> holds \<open>running\<close>. It is printed
  before the run blocks waiting for the shutdown signal, and nothing else is printed on
  standard output afterwards.
\<close>

theorem json_object_printed_once:
  "(fst (snd (ReferenceServer_start e (ReferenceServer_init (args_host a) (args_port a))))
      = Inr r \<longrightarrow>
      stdout_of (fst (reference_server_json_main e a))
        = [Print stdout (JsonDumps [(''host'', JString (args_host a)),
                (''port'', (case r of None \<Rightarrow> JNull | Some i \<Rightarrow> JInt i)),
                (''pymodbus_version'', JString (pymodbus_version e)),
                (''status'', JString ''running'')]) True]
    \<and> stdout_of (before_blocking (fst (reference_server_json_main e a)))
        = [Print stdout (JsonDumps [(''host'', JString (args_host a)),
                (''port'', (case r of None \<Rightarrow> JNull | Some i \<Rightarrow> JInt i)),
                (''pymodbus_version'', JString (pymodbus_version e)),
                (''status'', JString ''running'')]) True]
    \<and> AwaitShutdown \<in> set (fst (reference_server_json_main e a))
    \<and> map_of [(''host'', JString (args_host a)),
                (''port'', (case r of None \<Rightarrow> JNull | Some i \<Rightarrow> JInt i)),
                (''pymodbus_version'', JString (pymodbus_version e)),
                (''status'', JString ''running'')] ''host'' = Some (JString (args_host a))
    \<and> map_of [(''host'', JString (args_host a)),
                (''port'', (case r of None \<Rightarrow> JNull | Some i \<Rightarrow> JInt i)),
                (''pymodbus_version'', JString (pymodbus_version e)),
                (''status'', JString ''running'')] ''port''
        = Some (case r of None \<Rightarrow> JNull | Some i \<Rightarrow> JInt i)
    \<and> map_of [(''host'', JString (args_host a)),
                (''port'', (case r of None \<Rightarrow> JNull | Some i \<Rightarrow> JInt i)),
                (''pymodbus_version'', JString (pymodbus_version e)),
                (''status'', JString ''running'')] ''status'' = Some (JString ''running''))
   \<and> (fst (snd (TLSReferenceServer_start e
               (TLSReferenceServer_init (args_host b) (args_port b)
                  (args_certfile b) (args_keyfile b) (args_cafile b)))) = Inr r' \<longrightarrow>
      stdout_of (fst (tls_reference_server_json_main e b))
        = [Print stdout (JsonDumps [(''host'', JString (args_host b)),
                (''port'', (case r' of None \<Rightarrow> JNull | Some i \<Rightarrow> JInt i)),
                (''tls'', JBool True),
                (''certfile'', JString (args_certfile b)),
                (''pymodbus_version'', JString (pymodbus_version e)),
                (''status'', JString ''running'')]) True]
    \<and> stdout_of (before_blocking (fst (tls_reference_server_json_main e b)))
        = [Print stdout (JsonDumps [(''host'', JString (args_host b)),
                (''port'', (case r' of None \<Rightarrow> JNull | Some i \<Rightarrow> JInt i)),
                (''tls'', JBool True),
                (''certfile'', JString (args_certfile b)),
                (''pymodbus_version'', JString (pymodbus_version e)),
                (''status'', JString ''running'')]) True]
    \<and> AwaitShutdown \<in> set (fst (tls_reference_server_json_main e b))
    \<and> map_of [(''host'', JString (args_host b)),
                (''port'', (case r' of None \<Rightarrow> JNull | Some i \<Rightarrow> JInt i)),
                (''tls'', JBool True),
                (''certfile'', JString (args_certfile b)),
                (''pymodbus_version'', JString (pymodbus_version e)),
                (''status'', JString ''running'')] ''host'' = Some (JString (args_host b))
    \<and> map_of [(''host'', JString (args_host b)),
                (''port'', (case r' of None \<Rightarrow> JNull | Some i \<Rightarrow> JInt i)),
                (''tls'', JBool True),
                (''certfile'', JString (args_certfile b)),
                (''pymodbus_version'', JString (pymodbus_version e)),
                (''status'', JString ''running'')] ''port''
        = Some (case r' of None \<Rightarrow> JNull | Some i \<Rightarrow> JInt i)
    \<and> map_of [(''host'', JString (args_host b)),
                (''port'', (case r' of None \<Rightarrow> JNull | Some i \<Rightarrow> JInt i)),
                (''tls'', JBool True),
                (''certfile'', JString (args_certfile b)),
                (''pymodbus_version'', JString (pymodbus_version e)),
                (''status'', JString ''running'')] ''status'' = Some (JString ''running''))"
proof (intro conjI impI)
  assume s: "fst (snd (ReferenceServer_start e
                 (ReferenceServer_init (args_host a) (args_port a)))) = Inr r"
  note t = reference_server_json_main_trace [OF s]
  show "stdout_of (fst (reference_server_json_main e a))
        = [Print stdout (JsonDumps [(''host'', JString (args_host a)),
                (''port'', (case r of None \<Rightarrow> JNull | Some i \<Rightarrow> JInt i)),
                (''pymodbus_version'', JString (pymodbus_version e)),
                (''status'', JString ''running'')]) True]"
    by (simp add: t stdout_of_simps ReferenceServer_stop_events)
  show "stdout_of (before_blocking (fst (reference_server_json_main e a)))
        = [Print stdout (JsonDumps [(''host'', JString (args_host a)),
                (''port'', (case r of None \<Rightarrow> JNull | Some i \<Rightarrow> JInt i)),
                (''pymodbus_version'', JString (pymodbus_version e)),
                (''status'', JString ''running'')]) True]"
    by (simp add: t stdout_of_simps before_blocking_simps)
  show "AwaitShutdown \<in> set (fst (reference_server_json_main e a))"
    by (simp add: t)
next
  assume s: "fst (snd (TLSReferenceServer_start e
               (TLSReferenceServer_init (args_host b) (args_port b)
                  (args_certfile b) (args_keyfile b) (args_cafile b)))) = Inr r'"
  note t = tls_reference_server_json_main_trace [OF s]
  show "stdout_of (fst (tls_reference_server_json_main e b))
        = [Print stdout (JsonDumps [(''host'', JString (args_host b)),
                (''port'', (case r' of None \<Rightarrow> JNull | Some i \<Rightarrow> JInt i)),
                (''tls'', JBool True),
                (''certfile'', JString (args_certfile b)),
                (''pymodbus_version'', JString (pymodbus_version e)),
                (''status'', JString ''running'')]) True]"
    by (simp add: t stdout_of_simps TLSReferenceServer_stop_events)
  show "stdout_of (before_blocking (fst (tls_reference_server_json_main e b)))
        = [Print stdout (JsonDumps [(''host'', JString (args_host b)),
                (''port'', (case r' of None \<Rightarrow> JNull | Some i \<Rightarrow> JInt i)),
                (''tls'', JBool True),
                (''certfile'', JString (args_certfile b)),
                (''pymodbus_version'', JString (pymodbus_version e)),
                (''status'', JString ''running'')]) True]"
    by (simp add: t stdout_of_simps before_blocking_simps)
  show "AwaitShutdown \<in> set (fst (tls_reference_server_json_main e b))"
    by (simp add: t)
qed simp_all

theorem json_object_printed_once_witness:
  "fst (snd (ReferenceServer_start world_bound (ReferenceServer_init ''127.0.0.1'' 0)))
     = Inr (Some 50123)
   \<and> stdout_of (fst (reference_server_json_main world_bound
        \<lparr> args_host = ''127.0.0.1'', args_port = 0, args_verbose = False, args_json = True \<rparr>))
      = [Print stdout
           (JsonDumps [(''host'', JString ''127.0.0.1''), (''port'', JInt 50123),
                       (''pymodbus_version'', JString ''3.6.9''),
                       (''status'', JString ''running'')]) True]
   \<and> fst (snd (TLSReferenceServer_start world_bound
       (TLSReferenceServer_init ''127.0.0.1'' 0 ''certs/server.crt'' ''certs/server.key'' None)))
     = Inr (Some 50123)
   \<and> stdout_of (fst (tls_reference_server_json_main world_bound
        \<lparr> args_host = ''127.0.0.1'', args_port = 0, args_verbose = False, args_json = True,
          args_certfile = ''certs/server.crt'', args_keyfile = ''certs/server.key'',
          args_cafile = None \<rparr>))
      = [Print stdout
           (JsonDumps [(''host'', JString ''127.0.0.1''), (''port'', JInt 50123),
                       (''tls'', JBool True), (''certfile'', JString ''certs/server.crt''),
                       (''pymodbus_version'', JString ''3.6.9''),
                       (''status'', JString ''running'')]) True]"
proof -
  let ?a = "\<lparr> args_host = ''127.0.0.1'', args_port = 0, args_verbose = False, args_json = True \<rparr>"
  let ?b = "\<lparr> args_host = ''127.0.0.1'', args_port = 0, args_verbose = False, args_json = True,
          args_certfile = ''certs/server.crt'', args_keyfile = ''certs/server.key'',
          args_cafile = None \<rparr>"
  have s: "fst (snd (ReferenceServer_start world_bound
              (ReferenceServer_init (args_host ?a) (args_port ?a)))) = Inr (Some 50123)"
    using world_bound_start by simp
  have s': "fst (snd (TLSReferenceServer_start world_bound
               (TLSReferenceServer_init (args_host ?b) (args_port ?b)
                  (args_certfile ?b) (args_keyfile ?b) (args_cafile ?b)))) = Inr (Some 50123)"
    using world_bound_tls_start by simp
  show ?thesis
    using json_object_printed_once [of world_bound ?a "Some 50123" ?b "Some 50123"] s s'
    by (simp add: world_bound_def)
qed

section \<open>Startup errors\<close>

lemma TLSReferenceServer_create_ssl_context_missing:
  "load_cert_chain e (certfile self) (keyfile self) = Some x \<Longrightarrow>
   TLSReferenceServer_create_ssl_context e self = Inl x"
  by (simp add: TLSReferenceServer_create_ssl_context_def Let_def)

lemma TLSReferenceServer_start_ssl_failed:
  "TLSReferenceServer_create_ssl_context e self = Inl x \<Longrightarrow>
   TLSReferenceServer_start e self = ([], Inl x, self)"
  by (simp add: TLSReferenceServer_start_def Let_def)

lemma tls_reference_server_main_ssl_failed:
  assumes "load_cert_chain e cf kf = Some x"
  shows "tls_reference_server_main e h p cf kf ca v =
     ([AddSignalHandler SIGTERM, AddSignalHandler SIGINT]
      @ (if v then [Print stderr (Text ''Shutting down...'') False] else []), Some x)"
proof -
  let ?s = "TLSReferenceServer_init h p cf kf ca"
  have "load_cert_chain e (certfile ?s) (keyfile ?s) = Some x"
    using assms by (simp add: TLSReferenceServer_init_def)
  then have "TLSReferenceServer_start e ?s = ([], Inl x, ?s)"
    by (intro TLSReferenceServer_start_ssl_failed TLSReferenceServer_create_ssl_context_missing)
  moreover have "TLSReferenceServer_stop e ?s = ([], None, ?s)"
    by (simp add: TLSReferenceServer_stop_def TLSReferenceServer_init_def)
  ultimately show ?thesis
    by (simp add: tls_reference_server_main_def Let_def)
qed

lemma tls_reference_server_json_main_ssl_failed:
  assumes "load_cert_chain e (args_certfile a) (args_keyfile a) = Some x"
  shows "tls_reference_server_json_main e a =
     ([AddSignalHandler SIGTERM, AddSignalHandler SIGINT], Some x)"
proof -
  let ?s = "TLSReferenceServer_init (args_host a) (args_port a)
              (args_certfile a) (args_keyfile a) (args_cafile a)"
  have "load_cert_chain e (certfile ?s) (keyfile ?s) = Some x"
    using assms by (simp add: TLSReferenceServer_init_def)
  then have "TLSReferenceServer_start e ?s = ([], Inl x, ?s)"
    by (intro TLSReferenceServer_start_ssl_failed TLSReferenceServer_create_ssl_context_missing)
  then show ?thesis
    by (simp add: tls_reference_server_json_main_def Let_def)
qed

lemma tls_reference_server_script_failed:
  assumes "\<not> pymodbus_importable e
           \<or> load_cert_chain e (args_certfile b) (args_keyfile b) \<noteq> None"
  shows "\<exists>tr t. tls_reference_server_script e b = (tr @ [Print stderr t False], 1)
               \<and> stdout_of tr = []"
proof (cases "pymodbus_importable e")
  case False
  then have "tls_reference_server_script e b =
     ([] @ [Print stderr
         (Text ''ERROR: pymodbus not installed. Run: pip3 install pymodbus>=3.5.0'') False], 1)"
    by (simp add: tls_reference_server_script_def)
  moreover have "stdout_of [] = []" by (simp add: stdout_of_simps)
  ultimately show ?thesis by blast
next
  case True
  with assms obtain x where x: "load_cert_chain e (args_certfile b) (args_keyfile b) = Some x"
    by blast
  show ?thesis
  proof (cases "args_json b")
    case True
    have "tls_reference_server_script e b =
       ([AddSignalHandler SIGTERM, AddSignalHandler SIGINT]
        @ [Print stderr (Traceback x) False], 1)"
      using \<open>pymodbus_importable e\<close> True tls_reference_server_json_main_ssl_failed [OF x]
      by (simp add: tls_reference_server_script_def asyncio_run_def)
    moreover have "stdout_of [AddSignalHandler SIGTERM, AddSignalHandler SIGINT] = []"
      by (simp add: stdout_of_simps)
    ultimately show ?thesis by blast
  next
    case False
    let ?tr = "[AddSignalHandler SIGTERM, AddSignalHandler SIGINT]
        @ (if args_verbose b then [Print stderr (Text ''Shutting down...'') False] else [])"
    have "tls_reference_server_script e b = (?tr @ [Print stderr (Traceback x) False], 1)"
      using \<open>pymodbus_importable e\<close> False
        tls_reference_server_main_ssl_failed [OF x, of "args_host b" "args_port b"
          "args_cafile b" "args_verbose b"]
      by (simp add: tls_reference_server_script_def asyncio_run_def)
    moreover have "stdout_of ?tr = []"
      by (simp add: stdout_of_simps)
    ultimately show ?thesis by blast
  qed
qed

text \<open>
  Claim C7. On a startup error the process exits with a nonzero status, the last thing
  it does before exiting is to write a diagnostic on standard error, and nothing at all
  is printed on standard output, so no \<open>MODBUS_PORT=\<close> or \<open>MODBUS_TLS_PORT=\<close> line.
  The startup errors are: pymodbus cannot be imported (both servers), and, for the TLS
  server, loading the certificate and key files fails.
\<close>

theorem startup_error_exits_nonzero:
  "(\<not> pymodbus_importable e \<longrightarrow>
      snd (reference_server_script e a) \<noteq> 0
    \<and> fst (reference_server_script e a) \<noteq> []
    \<and> is_stderr (last (fst (reference_server_script e a)))
    \<and> stdout_of (fst (reference_server_script e a)) = [])
   \<and> (\<not> pymodbus_importable e \<or> load_cert_chain e (args_certfile b) (args_keyfile b) \<noteq> None
      \<longrightarrow>
      snd (tls_reference_server_script e b) \<noteq> 0
    \<and> fst (tls_reference_server_script e b) \<noteq> []
    \<and> is_stderr (last (fst (tls_reference_server_script e b)))
    \<and> stdout_of (fst (tls_reference_server_script e b)) = [])"
proof (intro conjI impI)
  assume "\<not> pymodbus_importable e"
  then have "reference_server_script e a =
     ([Print stderr
         (Text ''ERROR: pymodbus not installed. Run: pip3 install pymodbus>=3.5.0'') False], 1)"
    by (simp add: reference_server_script_def)
  then show "snd (reference_server_script e a) \<noteq> 0"
    and "fst (reference_server_script e a) \<noteq> []"
    and "is_stderr (last (fst (reference_server_script e a)))"
    and "stdout_of (fst (reference_server_script e a)) = []"
    by (simp_all add: stdout_of_simps)
next
  assume h: "\<not> pymodbus_importable e
             \<or> load_cert_chain e (args_certfile b) (args_keyfile b) \<noteq> None"
  from tls_reference_server_script_failed [OF h] obtain tr t where
    r: "tls_reference_server_script e b = (tr @ [Print stderr t False], 1)"
    and o: "stdout_of tr = []"
    by blast
  show "snd (tls_reference_server_script e b) \<noteq> 0" by (simp add: r)
  show "fst (tls_reference_server_script e b) \<noteq> []" by (simp add: r)
  show "is_stderr (last (fst (tls_reference_server_script e b)))" by (simp add: r)
  show "stdout_of (fst (tls_reference_server_script e b)) = []"
    by (simp add: r o stdout_of_simps)
qed

theorem startup_error_exits_nonzero_witness:
  "\<not> pymodbus_importable world_no_pymodbus
   \<and> reference_server_script world_no_pymodbus
        \<lparr> args_host = ''127.0.0.1'', args_port = 0, args_verbose = False, args_json = False \<rparr>
      = ([Print stderr
            (Text ''ERROR: pymodbus not installed. Run: pip3 install pymodbus>=3.5.0'') False], 1)
   \<and> load_cert_chain world_missing_cert ''certs/server.crt'' ''certs/server.key'' \<noteq> None
   \<and> tls_reference_server_script world_missing_cert
        \<lparr> args_host = ''0.0.0.0'', args_port = 802, args_verbose = True, args_json = False,
          args_certfile = ''certs/server.crt'', args_keyfile = ''certs/server.key'',
          args_cafile = None \<rparr>
      = ([AddSignalHandler SIGTERM, AddSignalHandler SIGINT,
          Print stderr (Text ''Shutting down...'') False,
          Print stderr (Traceback (FileNotFoundError ''certs/server.crt'')) False], 1)
   \<and> snd (tls_reference_server_script world_missing_cert
        \<lparr> args_host = ''0.0.0.0'', args_port = 802, args_verbose = True, args_json = False,
          args_certfile = ''certs/server.crt'', args_keyfile = ''certs/server.key'',
          args_cafile = None \<rparr>) \<noteq> 0
   \<and> stdout_of (fst (reference_server_script world_no_pymodbus
        \<lparr> args_host = ''127.0.0.1'', args_port = 0, args_verbose = False, args_json = False \<rparr>))
      = []"
proof -
  let ?a = "\<lparr> args_host = ''127.0.0.1'', args_port = 0, args_verbose = False,
              args_json = False \<rparr>"
  let ?b = "\<lparr> args_host = ''0.0.0.0'', args_port = 802, args_verbose = True, args_json = False,
          args_certfile = ''certs/server.crt'', args_keyfile = ''certs/server.key'',
          args_cafile = None \<rparr>"
  have n: "\<not> pymodbus_importable world_no_pymodbus"
    by (simp add: world_no_pymodbus_def world_bound_def)
  have m: "load_cert_chain world_missing_cert (args_certfile ?b) (args_keyfile ?b) \<noteq> None"
    by (simp add: world_missing_cert_def world_bound_def)
  have x: "load_cert_chain world_missing_cert ''certs/server.crt'' ''certs/server.key''
           = Some (FileNotFoundError ''certs/server.crt'')"
    by (simp add: world_missing_cert_def world_bound_def)
  have i: "pymodbus_importable world_missing_cert"
    by (simp add: world_missing_cert_def world_bound_def)
  have r: "reference_server_script world_no_pymodbus ?a
      = ([Print stderr
            (Text ''ERROR: pymodbus not installed. Run: pip3 install pymodbus>=3.5.0'') False], 1)"
    using n by (simp add: reference_server_script_def)
  have t: "tls_reference_server_script world_missing_cert ?b
      = ([AddSignalHandler SIGTERM, AddSignalHandler SIGINT,
          Print stderr (Text ''Shutting down...'') False,
          Print stderr (Traceback (FileNotFoundError ''certs/server.crt'')) False], 1)"
    using i tls_reference_server_main_ssl_failed [OF x, of "''0.0.0.0''" 802 None True]
    by (simp add: tls_reference_server_script_def asyncio_run_def)
  note c1 = startup_error_exits_nonzero [of world_no_pymodbus ?a ?b, THEN conjunct1, rule_format, OF n]
  note c2 = startup_error_exits_nonzero [of world_missing_cert ?a ?b, THEN conjunct2, rule_format,
      OF disjI2, OF m]
  show ?thesis using c1 c2 n m r t by simp
qed

section \<open>What the server objects hold through their life\<close>

lemma TLSReferenceServer_create_ssl_context_result:
  assumes "TLSReferenceServer_create_ssl_context e self = Inr ctx"
  shows "protocol ctx = PROTOCOL_TLS_SERVER"
    and "minimum_version ctx = TLSv1_2"
    and "cert_chains ctx = [(certfile self, keyfile self)]"
    and "verify_mode ctx = (case cafile self of Some (c # cs) \<Rightarrow> CERT_OPTIONAL | _ \<Rightarrow> CERT_NONE)"
  using assms
  by (auto simp: TLSReferenceServer_create_ssl_context_def Let_def SSLContext_init_def
      split: option.splits list.splits)

lemma ReferenceServer_start_inv:
  "ReferenceServer_inv (snd (snd (ReferenceServer_start e self)))"
  by (auto simp: ReferenceServer_inv_def ReferenceServer_start_def Let_def
      split: sum.splits option.splits list.splits transport.splits)

lemma ReferenceServer_stop_inv:
  "ReferenceServer_inv self \<Longrightarrow> ReferenceServer_inv (snd (snd (ReferenceServer_stop e self)))"
  by (auto simp: ReferenceServer_inv_def ReferenceServer_stop_def split: option.splits)

lemma ReferenceServer_calls_inv:
  "ReferenceServer_inv self \<Longrightarrow> ReferenceServer_inv (ReferenceServer_calls cs self)"
  unfolding ReferenceServer_calls_def
proof (induction cs arbitrary: self)
  case Nil
  then show ?case by simp
next
  case (Cons c cs)
  have "ReferenceServer_inv (ReferenceServer_call c self)"
    using Cons.prems by (cases c) (simp_all add: ReferenceServer_start_inv ReferenceServer_stop_inv)
  then show ?case using Cons.IH by simp
qed

lemma TLSReferenceServer_start_files:
  "certfile (snd (snd (TLSReferenceServer_start e self))) = certfile self"
  "keyfile (snd (snd (TLSReferenceServer_start e self))) = keyfile self"
  "cafile (snd (snd (TLSReferenceServer_start e self))) = cafile self"
  by (auto simp: TLSReferenceServer_start_def Let_def
      split: sum.splits option.splits list.splits transport.splits)

lemma TLSReferenceServer_stop_files:
  "certfile (snd (snd (TLSReferenceServer_stop e self))) = certfile self"
  "keyfile (snd (snd (TLSReferenceServer_stop e self))) = keyfile self"
  "cafile (snd (snd (TLSReferenceServer_stop e self))) = cafile self"
  by (auto simp: TLSReferenceServer_stop_def split: option.splits)

lemma TLSReferenceServer_start_server:
  "tls_server (snd (snd (TLSReferenceServer_start e self))) = Some srv \<Longrightarrow>
   tls_server self = Some srv
   \<or> (server_identity srv = TLSReferenceServer_create_identity
      \<and> server_context srv = TLSReferenceServer_create_datastore
      \<and> TLSReferenceServer_create_ssl_context e self = Inr (sslctx srv))"
  by (auto simp: TLSReferenceServer_start_def Let_def
      split: sum.splits option.splits list.splits transport.splits if_splits)

lemma TLSReferenceServer_start_inv:
  assumes "TLSReferenceServer_inv self"
  shows "TLSReferenceServer_inv (snd (snd (TLSReferenceServer_start e self)))"
proof (cases "tls_server (snd (snd (TLSReferenceServer_start e self)))")
  case None
  then show ?thesis by (simp add: TLSReferenceServer_inv_def)
next
  case (Some srv)
  from TLSReferenceServer_start_server [OF Some]
  show ?thesis
  proof
    assume "tls_server self = Some srv"
    then show ?thesis using assms Some
      by (simp add: TLSReferenceServer_inv_def TLSReferenceServer_start_files)
  next
    assume n: "server_identity srv = TLSReferenceServer_create_identity
      \<and> server_context srv = TLSReferenceServer_create_datastore
      \<and> TLSReferenceServer_create_ssl_context e self = Inr (sslctx srv)"
    then have c: "TLSReferenceServer_create_ssl_context e self = Inr (sslctx srv)" by simp
    show ?thesis using n Some TLSReferenceServer_create_ssl_context_result [OF c]
      by (simp add: TLSReferenceServer_inv_def TLSReferenceServer_start_files)
  qed
qed

lemma TLSReferenceServer_stop_inv:
  "TLSReferenceServer_inv self \<Longrightarrow>
   TLSReferenceServer_inv (snd (snd (TLSReferenceServer_stop e self)))"
  by (auto simp: TLSReferenceServer_inv_def TLSReferenceServer_stop_def split: option.splits)

lemma TLSReferenceServer_calls_inv:
  "TLSReferenceServer_inv self \<Longrightarrow> TLSReferenceServer_inv (TLSReferenceServer_calls cs self)"
  unfolding TLSReferenceServer_calls_def
proof (induction cs arbitrary: self)
  case Nil
  then show ?case by simp
next
  case (Cons c cs)
  have "TLSReferenceServer_inv (TLSReferenceServer_call c self)"
    using Cons.prems
    by (cases c) (simp_all add: TLSReferenceServer_start_inv TLSReferenceServer_stop_inv)
  then show ?case using Cons.IH by simp
qed

lemma TLSReferenceServer_calls_files:
  "certfile (TLSReferenceServer_calls cs self) = certfile self
   \<and> keyfile (TLSReferenceServer_calls cs self) = keyfile self
   \<and> cafile (TLSReferenceServer_calls cs self) = cafile self"
  unfolding TLSReferenceServer_calls_def
proof (induction cs arbitrary: self)
  case Nil
  then show ?case by simp
next
  case (Cons c cs)
  have "certfile (TLSReferenceServer_call c self) = certfile self
   \<and> keyfile (TLSReferenceServer_call c self) = keyfile self
   \<and> cafile (TLSReferenceServer_call c self) = cafile self"
    by (cases c) (simp_all add: TLSReferenceServer_start_files TLSReferenceServer_stop_files)
  then show ?case using Cons.IH [of "TLSReferenceServer_call c self"] by simp
qed

lemma ReferenceServer_init_inv: "ReferenceServer_inv (ReferenceServer_init h p)"
  by (simp add: ReferenceServer_inv_def ReferenceServer_init_def)

lemma TLSReferenceServer_init_inv: "TLSReferenceServer_inv (TLSReferenceServer_init h p cf kf ca)"
  by (simp add: TLSReferenceServer_inv_def TLSReferenceServer_init_def)

section \<open>The TLS configuration\<close>

lemma world_bound_ssl_context:
  "TLSReferenceServer_create_ssl_context world_bound
     (TLSReferenceServer_init h p cf kf (Some ''certs/ca.crt''))
   = Inr \<lparr> protocol = PROTOCOL_TLS_SERVER, minimum_version = TLSv1_2,
           cert_chains = [(cf, kf)], verify_locations = [''certs/ca.crt''],
           verify_mode = CERT_OPTIONAL \<rparr>"
  "TLSReferenceServer_create_ssl_context world_bound (TLSReferenceServer_init h p cf kf None)
   = Inr \<lparr> protocol = PROTOCOL_TLS_SERVER, minimum_version = TLSv1_2,
           cert_chains = [(cf, kf)], verify_locations = [], verify_mode = CERT_NONE \<rparr>"
  "TLSReferenceServer_create_ssl_context world_bound (TLSReferenceServer_init h p cf kf (Some []))
   = Inr \<lparr> protocol = PROTOCOL_TLS_SERVER, minimum_version = TLSv1_2,
           cert_chains = [(cf, kf)], verify_locations = [], verify_mode = CERT_NONE \<rparr>"
  by (simp_all add: TLSReferenceServer_create_ssl_context_def TLSReferenceServer_init_def
      world_bound_def SSLContext_init_def Let_def)

lemma world_bound_tls_started:
  "\<exists>srv. tls_server (TLSReferenceServer_calls [Start world_bound]
            (TLSReferenceServer_init h p cf kf None)) = Some srv"
  by (simp add: TLSReferenceServer_calls_def TLSReferenceServer_start_def
      TLSReferenceServer_create_ssl_context_def TLSReferenceServer_init_def
      world_bound_def SSLContext_init_def Let_def)

text \<open>
  Claim C6. Every ssl context \<open>_create_ssl_context\<close> returns is a server context with
  minimum protocol version TLS 1.2 and with the server's certificate chain loaded from
  the object's certificate and key files. Client certificate verification is optional
  and configurable: the verification mode is \<open>CERT_OPTIONAL\<close> exactly when a CA file is
  supplied (\<open>cafile\<close> is a non-empty string) and \<open>CERT_NONE\<close> otherwise (\<open>cafile\<close> is
  \<open>None\<close> or empty). The same holds of the context of the pymodbus server the object
  holds, after any sequence of calls of \<open>start\<close> and \<open>stop\<close> on a new object.
\<close>

theorem ssl_context_configuration:
  "(TLSReferenceServer_create_ssl_context e self = Inr ctx \<longrightarrow>
      protocol ctx = PROTOCOL_TLS_SERVER
    \<and> minimum_version ctx = TLSv1_2
    \<and> cert_chains ctx = [(certfile self, keyfile self)]
    \<and> (verify_mode ctx = CERT_OPTIONAL \<longleftrightarrow> (\<exists>c cs. cafile self = Some (c # cs)))
    \<and> (verify_mode ctx = CERT_NONE \<longleftrightarrow> cafile self = None \<or> cafile self = Some []))
   \<and> (tls_server (TLSReferenceServer_calls calls (TLSReferenceServer_init h p cf kf ca))
        = Some srv \<longrightarrow>
      protocol (sslctx srv) = PROTOCOL_TLS_SERVER
    \<and> minimum_version (sslctx srv) = TLSv1_2
    \<and> cert_chains (sslctx srv) = [(cf, kf)]
    \<and> (verify_mode (sslctx srv) = CERT_OPTIONAL \<longleftrightarrow> (\<exists>c cs. ca = Some (c # cs)))
    \<and> (verify_mode (sslctx srv) = CERT_NONE \<longleftrightarrow> ca = None \<or> ca = Some []))"
proof (intro conjI impI)
  assume a: "TLSReferenceServer_create_ssl_context e self = Inr ctx"
  note r = TLSReferenceServer_create_ssl_context_result [OF a]
  show "protocol ctx = PROTOCOL_TLS_SERVER" by (rule r)
  show "minimum_version ctx = TLSv1_2" by (rule r)
  show "cert_chains ctx = [(certfile self, keyfile self)]" by (rule r)
  show "verify_mode ctx = CERT_OPTIONAL \<longleftrightarrow> (\<exists>c cs. cafile self = Some (c # cs))"
    by (simp add: r(4) split: option.splits list.splits)
  show "verify_mode ctx = CERT_NONE \<longleftrightarrow> cafile self = None \<or> cafile self = Some []"
    by (simp add: r(4) split: option.splits list.splits)
next
  let ?s = "TLSReferenceServer_calls calls (TLSReferenceServer_init h p cf kf ca)"
  assume a: "tls_server ?s = Some srv"
  have "TLSReferenceServer_inv ?s"
    by (rule TLSReferenceServer_calls_inv) (rule TLSReferenceServer_init_inv)
  moreover have "certfile ?s = cf" "keyfile ?s = kf" "cafile ?s = ca"
    using TLSReferenceServer_calls_files [of calls "TLSReferenceServer_init h p cf kf ca"]
    by (simp_all add: TLSReferenceServer_init_def)
  ultimately have r: "protocol (sslctx srv) = PROTOCOL_TLS_SERVER"
    "minimum_version (sslctx srv) = TLSv1_2"
    "cert_chains (sslctx srv) = [(cf, kf)]"
    "verify_mode (sslctx srv) = (case ca of Some (c # cs) \<Rightarrow> CERT_OPTIONAL | _ \<Rightarrow> CERT_NONE)"
    using a by (simp_all add: TLSReferenceServer_inv_def)
  show "protocol (sslctx srv) = PROTOCOL_TLS_SERVER" by (rule r)
  show "minimum_version (sslctx srv) = TLSv1_2" by (rule r)
  show "cert_chains (sslctx srv) = [(cf, kf)]" by (rule r)
  show "verify_mode (sslctx srv) = CERT_OPTIONAL \<longleftrightarrow> (\<exists>c cs. ca = Some (c # cs))"
    by (simp add: r(4) split: option.splits list.splits)
  show "verify_mode (sslctx srv) = CERT_NONE \<longleftrightarrow> ca = None \<or> ca = Some []"
    by (simp add: r(4) split: option.splits list.splits)
qed

theorem ssl_context_configuration_witness:
  "(\<exists>ctx. TLSReferenceServer_create_ssl_context world_bound
            (TLSReferenceServer_init ''0.0.0.0'' 802 ''certs/server.crt'' ''certs/server.key''
               (Some ''certs/ca.crt'')) = Inr ctx
         \<and> minimum_version ctx = TLSv1_2 \<and> verify_mode ctx = CERT_OPTIONAL)
   \<and> (\<exists>srv. tls_server (TLSReferenceServer_calls [Start world_bound]
            (TLSReferenceServer_init ''0.0.0.0'' 802 ''certs/server.crt'' ''certs/server.key''
               None)) = Some srv
         \<and> minimum_version (sslctx srv) = TLSv1_2 \<and> verify_mode (sslctx srv) = CERT_NONE
         \<and> cert_chains (sslctx srv) = [(''certs/server.crt'', ''certs/server.key'')])"
proof -
  let ?s = "TLSReferenceServer_init ''0.0.0.0'' 802 ''certs/server.crt'' ''certs/server.key''
               (Some ''certs/ca.crt'')"
  obtain ctx where c: "TLSReferenceServer_create_ssl_context world_bound ?s = Inr ctx"
    using world_bound_ssl_context(1) by blast
  obtain srv where s: "tls_server (TLSReferenceServer_calls [Start world_bound]
            (TLSReferenceServer_init ''0.0.0.0'' 802 ''certs/server.crt'' ''certs/server.key''
               None)) = Some srv"
    using world_bound_tls_started by blast
  have f: "cafile ?s = Some ''certs/ca.crt''" by (simp add: TLSReferenceServer_init_def)
  note t1 = ssl_context_configuration [THEN conjunct1, rule_format, OF c]
  note t2 = ssl_context_configuration [THEN conjunct2, rule_format, OF s]
  have "minimum_version ctx = TLSv1_2 \<and> verify_mode ctx = CERT_OPTIONAL"
    using t1 f by simp
  moreover have "minimum_version (sslctx srv) = TLSv1_2 \<and> verify_mode (sslctx srv) = CERT_NONE
         \<and> cert_chains (sslctx srv) = [(''certs/server.crt'', ''certs/server.key'')]"
    using t2 by simp
  ultimately show ?thesis using c s by blast
qed

section \<open>The device identification\<close>

lemma ReferenceServer_identity_info:
  "info ReferenceServer_create_identity =
     [(0, ''ModbusKit''), (1, ''Petro-Rovenskyi''), (2, ''1.0.0''),
      (3, ''https://petro.rovenskyi.com''), (4, ''Reference Server''),
      (5, ''PyModbus Test Server'')]"
  by (simp add: ReferenceServer_create_identity_def ReferenceServer_VENDOR_NAME_def
      ReferenceServer_PRODUCT_CODE_def ReferenceServer_MAJOR_MINOR_REVISION_def
      ReferenceServer_VENDOR_URL_def ReferenceServer_PRODUCT_NAME_def
      ReferenceServer_MODEL_NAME_def)

lemma TLSReferenceServer_identity_info:
  "info TLSReferenceServer_create_identity =
     [(0, ''ModbusKit''), (1, ''Petro-Rovenskyi''), (2, ''1.0.0''),
      (3, ''https://petro.rovenskyi.com''), (4, ''TLS Reference Server''),
      (5, ''PyModbus TLS Test Server'')]"
  by (simp add: TLSReferenceServer_create_identity_def TLSReferenceServer_VENDOR_NAME_def
      TLSReferenceServer_PRODUCT_CODE_def TLSReferenceServer_MAJOR_MINOR_REVISION_def
      TLSReferenceServer_VENDOR_URL_def TLSReferenceServer_PRODUCT_NAME_def
      TLSReferenceServer_MODEL_NAME_def)

lemma world_bound_started:
  "\<exists>srv. server (ReferenceServer_calls [Start world_bound, Stop world_bound, Start world_bound]
            (ReferenceServer_init h p)) = Some srv"
  by (simp add: ReferenceServer_calls_def ReferenceServer_start_def ReferenceServer_stop_def
      ReferenceServer_init_def world_bound_def Let_def)

text \<open>
  Claim C5. The device identification built by \<open>_create_identity\<close> maps the object
  IDs 0x00 to 0x05, in this order, to VendorName, ProductCode, MajorMinorRevision,
  VendorUrl, ProductName and ModelName; object ID 0x00 maps to the vendor name
  \<open>ModbusKit\<close>, character for character, in the plaintext and in the TLS server. It is
  not modified after construction: whatever sequence of \<open>start\<close> and \<open>stop\<close> calls a
  new server object goes through, the pymodbus server it holds, if any, has that
  identification.
\<close>

theorem device_identification_fixed:
  "map fst (info ReferenceServer_create_identity) = [0x00, 0x01, 0x02, 0x03, 0x04, 0x05]
   \<and> map snd (info ReferenceServer_create_identity)
       = [ReferenceServer_VENDOR_NAME, ReferenceServer_PRODUCT_CODE,
          ReferenceServer_MAJOR_MINOR_REVISION, ReferenceServer_VENDOR_URL,
          ReferenceServer_PRODUCT_NAME, ReferenceServer_MODEL_NAME]
   \<and> map_of (info ReferenceServer_create_identity) 0x00 = Some ''ModbusKit''
   \<and> map fst (info TLSReferenceServer_create_identity) = [0x00, 0x01, 0x02, 0x03, 0x04, 0x05]
   \<and> map snd (info TLSReferenceServer_create_identity)
       = [TLSReferenceServer_VENDOR_NAME, TLSReferenceServer_PRODUCT_CODE,
          TLSReferenceServer_MAJOR_MINOR_REVISION, TLSReferenceServer_VENDOR_URL,
          TLSReferenceServer_PRODUCT_NAME, TLSReferenceServer_MODEL_NAME]
   \<and> map_of (info TLSReferenceServer_create_identity) 0x00 = Some ''ModbusKit''
   \<and> (server (ReferenceServer_calls calls (ReferenceServer_init h p)) = Some srv \<longrightarrow>
        server_identity srv = ReferenceServer_create_identity)
   \<and> (tls_server (TLSReferenceServer_calls calls' (TLSReferenceServer_init h' p' cf kf ca))
        = Some srv' \<longrightarrow>
        server_identity srv' = TLSReferenceServer_create_identity)"
proof (intro conjI impI)
  let ?s = "ReferenceServer_calls calls (ReferenceServer_init h p)"
  assume a: "server ?s = Some srv"
  have "ReferenceServer_inv ?s"
    by (rule ReferenceServer_calls_inv) (rule ReferenceServer_init_inv)
  then show "server_identity srv = ReferenceServer_create_identity"
    using a by (simp add: ReferenceServer_inv_def)
next
  let ?s = "TLSReferenceServer_calls calls' (TLSReferenceServer_init h' p' cf kf ca)"
  assume a: "tls_server ?s = Some srv'"
  have "TLSReferenceServer_inv ?s"
    by (rule TLSReferenceServer_calls_inv) (rule TLSReferenceServer_init_inv)
  then show "server_identity srv' = TLSReferenceServer_create_identity"
    using a by (simp add: TLSReferenceServer_inv_def)
qed (simp_all add: ReferenceServer_create_identity_def TLSReferenceServer_create_identity_def
      ReferenceServer_VENDOR_NAME_def TLSReferenceServer_VENDOR_NAME_def)

theorem device_identification_fixed_witness:
  "(\<exists>srv. server (ReferenceServer_calls [Start world_bound, Stop world_bound, Start world_bound]
             (ReferenceServer_init ''127.0.0.1'' 0)) = Some srv
         \<and> map_of (info (server_identity srv)) 0x00 = Some ''ModbusKit''
         \<and> map_of (info (server_identity srv)) 0x04 = Some ''Reference Server'')
   \<and> (\<exists>srv. tls_server (TLSReferenceServer_calls [Start world_bound]
             (TLSReferenceServer_init ''0.0.0.0'' 802 ''certs/server.crt'' ''certs/server.key''
                None)) = Some srv
         \<and> map_of (info (server_identity srv)) 0x00 = Some ''ModbusKit''
         \<and> map_of (info (server_identity srv)) 0x04 = Some ''TLS Reference Server'')"
proof -
  obtain srv where s: "server (ReferenceServer_calls
        [Start world_bound, Stop world_bound, Start world_bound]
        (ReferenceServer_init ''127.0.0.1'' 0)) = Some srv"
    using world_bound_started by blast
  obtain srv' where s': "tls_server (TLSReferenceServer_calls [Start world_bound]
             (TLSReferenceServer_init ''0.0.0.0'' 802 ''certs/server.crt'' ''certs/server.key''
                None)) = Some srv'"
    using world_bound_tls_started by blast
  note d = device_identification_fixed [of _ _ _ srv _ _ _ _ _ _ srv']
  have i: "server_identity srv = ReferenceServer_create_identity"
    using d s by blast
  have i': "server_identity srv' = TLSReferenceServer_create_identity"
    using d s' by blast
  have "map_of (info (server_identity srv)) 0x00 = Some ''ModbusKit''
         \<and> map_of (info (server_identity srv)) 0x04 = Some ''Reference Server''"
    by (simp add: i ReferenceServer_identity_info)
  moreover have "map_of (info (server_identity srv')) 0x00 = Some ''ModbusKit''
         \<and> map_of (info (server_identity srv')) 0x04 = Some ''TLS Reference Server''"
    by (simp add: i' TLSReferenceServer_identity_info)
  ultimately show ?thesis using s s' by blast
qed

section \<open>Stopping twice\<close>

lemma ReferenceServer_stop_None:
  "server self = None \<Longrightarrow> ReferenceServer_stop e self = ([], None, self)"
  by (simp add: ReferenceServer_stop_def)

lemma ReferenceServer_stop_returned:
  "fst (snd (ReferenceServer_stop e self)) = None \<Longrightarrow>
   server (snd (snd (ReferenceServer_stop e self))) = None"
  by (simp add: ReferenceServer_stop_def split: option.splits)

lemma TLSReferenceServer_stop_None:
  "tls_server self = None \<Longrightarrow> TLSReferenceServer_stop e self = ([], None, self)"
  by (simp add: TLSReferenceServer_stop_def)

lemma TLSReferenceServer_stop_returned:
  "fst (snd (TLSReferenceServer_stop e self)) = None \<Longrightarrow>
   tls_server (snd (snd (TLSReferenceServer_stop e self))) = None"
  by (simp add: TLSReferenceServer_stop_def split: option.splits)

lemma world_bound_started_stop:
  "fst (ReferenceServer_stop world_bound
          (ReferenceServer_calls [Start world_bound] (ReferenceServer_init h p))) = [Shutdown]"
  "fst (snd (ReferenceServer_stop world_bound
          (ReferenceServer_calls [Start world_bound] (ReferenceServer_init h p)))) = None"
  by (simp_all add: ReferenceServer_calls_def ReferenceServer_start_def ReferenceServer_stop_def
      ReferenceServer_init_def world_bound_def Let_def)

lemma world_bound_tls_started_stop:
  "fst (TLSReferenceServer_stop world_bound
          (TLSReferenceServer_calls [Start world_bound]
             (TLSReferenceServer_init h p cf kf None))) = [Shutdown]"
  "fst (snd (TLSReferenceServer_stop world_bound
          (TLSReferenceServer_calls [Start world_bound]
             (TLSReferenceServer_init h p cf kf None)))) = None"
  by (simp_all add: TLSReferenceServer_calls_def TLSReferenceServer_start_def
      TLSReferenceServer_stop_def TLSReferenceServer_create_ssl_context_def
      TLSReferenceServer_init_def world_bound_def SSLContext_init_def Let_def)

text \<open>
  Claim C10. \<open>stop\<close> is idempotent: after a call of \<open>stop\<close> that returns, the field
  \<open>server\<close> is \<open>None\<close>, so a second call of \<open>stop\<close> performs no shutdown action,
  raises nothing and leaves the object as it is; the same holds of \<open>stop\<close> called on a
  new object, before any \<open>start\<close>. This holds of both server classes.
\<close>

theorem stop_is_idempotent:
  "(fst (snd (ReferenceServer_stop e self)) = None \<longrightarrow>
      server (snd (snd (ReferenceServer_stop e self))) = None
    \<and> ReferenceServer_stop e' (snd (snd (ReferenceServer_stop e self)))
        = ([], None, snd (snd (ReferenceServer_stop e self))))
   \<and> ReferenceServer_stop e (ReferenceServer_init h p) = ([], None, ReferenceServer_init h p)
   \<and> (fst (snd (TLSReferenceServer_stop e tself)) = None \<longrightarrow>
      tls_server (snd (snd (TLSReferenceServer_stop e tself))) = None
    \<and> TLSReferenceServer_stop e' (snd (snd (TLSReferenceServer_stop e tself)))
        = ([], None, snd (snd (TLSReferenceServer_stop e tself))))
   \<and> TLSReferenceServer_stop e (TLSReferenceServer_init h p cf kf ca)
       = ([], None, TLSReferenceServer_init h p cf kf ca)"
proof (intro conjI impI)
  assume a: "fst (snd (ReferenceServer_stop e self)) = None"
  show n: "server (snd (snd (ReferenceServer_stop e self))) = None"
    by (rule ReferenceServer_stop_returned [OF a])
  show "ReferenceServer_stop e' (snd (snd (ReferenceServer_stop e self)))
        = ([], None, snd (snd (ReferenceServer_stop e self)))"
    by (rule ReferenceServer_stop_None [OF n])
next
  show "ReferenceServer_stop e (ReferenceServer_init h p) = ([], None, ReferenceServer_init h p)"
    by (rule ReferenceServer_stop_None) (simp add: ReferenceServer_init_def)
next
  assume a: "fst (snd (TLSReferenceServer_stop e tself)) = None"
  show n: "tls_server (snd (snd (TLSReferenceServer_stop e tself))) = None"
    by (rule TLSReferenceServer_stop_returned [OF a])
  show "TLSReferenceServer_stop e' (snd (snd (TLSReferenceServer_stop e tself)))
        = ([], None, snd (snd (TLSReferenceServer_stop e tself)))"
    by (rule TLSReferenceServer_stop_None [OF n])
next
  show "TLSReferenceServer_stop e (TLSReferenceServer_init h p cf kf ca)
       = ([], None, TLSReferenceServer_init h p cf kf ca)"
    by (rule TLSReferenceServer_stop_None) (simp add: TLSReferenceServer_init_def)
qed

theorem stop_is_idempotent_witness:
  "fst (ReferenceServer_stop world_bound
          (ReferenceServer_calls [Start world_bound] (ReferenceServer_init ''127.0.0.1'' 0)))
     = [Shutdown]
   \<and> fst (snd (ReferenceServer_stop world_bound
          (ReferenceServer_calls [Start world_bound] (ReferenceServer_init ''127.0.0.1'' 0))))
     = None
   \<and> fst (ReferenceServer_stop world_bound
        (snd (snd (ReferenceServer_stop world_bound
          (ReferenceServer_calls [Start world_bound] (ReferenceServer_init ''127.0.0.1'' 0))))))
     = []
   \<and> ReferenceServer_calls [Start world_bound, Stop world_bound, Stop world_bound]
        (ReferenceServer_init ''127.0.0.1'' 0)
     = ReferenceServer_calls [Start world_bound, Stop world_bound]
        (ReferenceServer_init ''127.0.0.1'' 0)
   \<and> fst (snd (TLSReferenceServer_stop world_bound
          (TLSReferenceServer_calls [Start world_bound]
             (TLSReferenceServer_init ''0.0.0.0'' 802 ''certs/server.crt'' ''certs/server.key''
                None)))) = None
   \<and> fst (TLSReferenceServer_stop world_bound
        (snd (snd (TLSReferenceServer_stop world_bound
          (TLSReferenceServer_calls [Start world_bound]
             (TLSReferenceServer_init ''0.0.0.0'' 802 ''certs/server.crt'' ''certs/server.key''
                None))))))
     = []"
proof -
  let ?s = "ReferenceServer_calls [Start world_bound] (ReferenceServer_init ''127.0.0.1'' 0)"
  let ?t = "TLSReferenceServer_calls [Start world_bound]
             (TLSReferenceServer_init ''0.0.0.0'' 802 ''certs/server.crt'' ''certs/server.key''
                None)"
  have a: "fst (snd (ReferenceServer_stop world_bound ?s)) = None"
    by (rule world_bound_started_stop)
  have b: "fst (snd (TLSReferenceServer_stop world_bound ?t)) = None"
    by (rule world_bound_tls_started_stop)
  note i = stop_is_idempotent [of world_bound ?s world_bound _ _ ?t, THEN conjunct1, rule_format, OF a]
  note j = stop_is_idempotent [of world_bound ?s world_bound _ _ ?t,
      THEN conjunct2, THEN conjunct2, THEN conjunct1, rule_format, OF b]
  have c: "ReferenceServer_calls [Start world_bound, Stop world_bound, Stop world_bound]
        (ReferenceServer_init ''127.0.0.1'' 0)
     = ReferenceServer_calls [Start world_bound, Stop world_bound]
        (ReferenceServer_init ''127.0.0.1'' 0)"
    using i by (simp add: ReferenceServer_calls_def)
  show ?thesis
    using a b c i j world_bound_started_stop(1) [of "''127.0.0.1''" 0] by simp
qed

section \<open>The port start returns\<close>

lemma ReferenceServer_start_returned:
  assumes "serve_forever e = Inr tr"
  shows "fst (snd (ReferenceServer_start e self))
         = Inr (Some (case discovered_port tr of
                        Some q \<Rightarrow> q
                      | None \<Rightarrow> (case actual_port self of Some a \<Rightarrow> a | None \<Rightarrow> port self)))"
    and "actual_port (snd (snd (ReferenceServer_start e self)))
         = Some (case discovered_port tr of
                   Some q \<Rightarrow> q
                 | None \<Rightarrow> (case actual_port self of Some a \<Rightarrow> a | None \<Rightarrow> port self))"
  using assms
  by (auto simp: ReferenceServer_start_def discovered_port_def Let_def
      split: option.splits list.splits transport.splits)

lemma ReferenceServer_start_returned_serve:
  "fst (snd (ReferenceServer_start e self)) = Inr r \<Longrightarrow> \<exists>tr. serve_forever e = Inr tr"
  by (cases "serve_forever e") (simp_all add: ReferenceServer_start_def Let_def)

lemma TLSReferenceServer_start_returned:
  assumes "serve_forever e = Inr tr"
    and "fst (snd (TLSReferenceServer_start e self)) = Inr r"
  shows "r = Some (case discovered_port tr of
                        Some q \<Rightarrow> q
                      | None \<Rightarrow> (case tls_actual_port self of Some a \<Rightarrow> a
                                  | None \<Rightarrow> tls_port self))"
    and "tls_actual_port (snd (snd (TLSReferenceServer_start e self))) = r"
  using assms
  by (auto simp: TLSReferenceServer_start_def discovered_port_def Let_def
      split: sum.splits option.splits list.splits transport.splits)

lemma TLSReferenceServer_start_returned_serve:
  "fst (snd (TLSReferenceServer_start e self)) = Inr r \<Longrightarrow> \<exists>tr. serve_forever e = Inr tr"
  by (cases "serve_forever e")
     (simp_all add: TLSReferenceServer_start_def Let_def split: sum.splits)

lemma world_no_sockets_serve:
  "serve_forever world_no_sockets = Inr (Some (Transport None))"
  "discovered_port (Some (Transport None)) = None"
  by (simp_all add: world_no_sockets_def world_bound_def discovered_port_def)

lemma world_no_sockets_start:
  "fst (snd (ReferenceServer_start world_no_sockets (ReferenceServer_init h p))) = Inr (Some p)"
  "fst (snd (TLSReferenceServer_start world_no_sockets
               (TLSReferenceServer_init h p cf kf None))) = Inr (Some p)"
  by (simp_all add: ReferenceServer_start_def TLSReferenceServer_start_def
      TLSReferenceServer_create_ssl_context_def SSLContext_init_def
      ReferenceServer_init_def TLSReferenceServer_init_def
      world_no_sockets_def world_bound_def Let_def)

text \<open>
  Every call of \<open>start\<close> that returns, returns an integer, never \<open>None\<close>, and leaves
  it in the field \<open>actual_port\<close>. On a new object, as in \<open>main\<close> and \<open>json_main\<close>,
  a transport that exposes no sockets makes \<open>start\<close> return the requested port
  unchanged.
\<close>

lemma start_returns_an_integer:
  "(fst (snd (ReferenceServer_start e self)) = Inr r \<longrightarrow>
      (\<exists>i. r = Some i) \<and> actual_port (snd (snd (ReferenceServer_start e self))) = r)
   \<and> (fst (snd (ReferenceServer_start e (ReferenceServer_init h p))) = Inr r
      \<and> serve_forever e = Inr tr \<and> discovered_port tr = None \<longrightarrow> r = Some p)
   \<and> (fst (snd (TLSReferenceServer_start e tself)) = Inr r' \<longrightarrow>
      (\<exists>i. r' = Some i)
      \<and> tls_actual_port (snd (snd (TLSReferenceServer_start e tself))) = r')
   \<and> (fst (snd (TLSReferenceServer_start e (TLSReferenceServer_init h p cf kf ca))) = Inr r'
      \<and> serve_forever e = Inr tr \<and> discovered_port tr = None \<longrightarrow> r' = Some p)"
proof (intro conjI impI)
  assume a: "fst (snd (ReferenceServer_start e self)) = Inr r"
  then obtain tr' where s: "serve_forever e = Inr tr'"
    using ReferenceServer_start_returned_serve by blast
  note t = ReferenceServer_start_returned [OF s, of self]
  show "\<exists>i. r = Some i" using a t(1) by auto
  show "actual_port (snd (snd (ReferenceServer_start e self))) = r" using a t by auto
next
  assume a: "fst (snd (ReferenceServer_start e (ReferenceServer_init h p))) = Inr r
      \<and> serve_forever e = Inr tr \<and> discovered_port tr = None"
  then show "r = Some p"
    using ReferenceServer_start_returned(1) [of e tr "ReferenceServer_init h p"]
    by (simp add: ReferenceServer_init_def)
next
  assume a: "fst (snd (TLSReferenceServer_start e tself)) = Inr r'"
  then obtain tr' where s: "serve_forever e = Inr tr'"
    using TLSReferenceServer_start_returned_serve by blast
  note t = TLSReferenceServer_start_returned [OF s a]
  show "\<exists>i. r' = Some i" using t(1) by auto
  show "tls_actual_port (snd (snd (TLSReferenceServer_start e tself))) = r'" by (rule t(2))
next
  assume a: "fst (snd (TLSReferenceServer_start e (TLSReferenceServer_init h p cf kf ca))) = Inr r'
      \<and> serve_forever e = Inr tr \<and> discovered_port tr = None"
  then show "r' = Some p"
    using TLSReferenceServer_start_returned(1) [of e tr "TLSReferenceServer_init h p cf kf ca" r']
    by (simp add: TLSReferenceServer_init_def)
qed


section \<open>The port printed for an ephemeral bind\<close>

lemma format_py_0: "format_py (Some 0) = ''0''"
  by (simp add: format_py_def str_int_def str_nat.simps)

lemma ReferenceServer_start_new:
  "serve_forever e = Inr tr \<Longrightarrow>
   fst (snd (ReferenceServer_start e (ReferenceServer_init h p)))
     = Inr (Some (case discovered_port tr of Some q \<Rightarrow> q | None \<Rightarrow> p))"
  by (auto simp: ReferenceServer_start_def ReferenceServer_init_def discovered_port_def Let_def
      split: option.splits list.splits transport.splits)

lemma TLSReferenceServer_start_new:
  "serve_forever e = Inr tr \<Longrightarrow>
   fst (snd (TLSReferenceServer_start e (TLSReferenceServer_init h p cf kf ca))) = Inr r \<Longrightarrow>
   r = Some (case discovered_port tr of Some q \<Rightarrow> q | None \<Rightarrow> p)"
  by (auto simp: TLSReferenceServer_start_def TLSReferenceServer_init_def discovered_port_def
      Let_def split: sum.splits option.splits list.splits transport.splits)

lemma world_bound_serve:
  "serve_forever world_bound = Inr (Some (Transport (Some [Socket (''127.0.0.1'', 50123)])))"
  "discovered_port (Some (Transport (Some [Socket (''127.0.0.1'', 50123)]))) = Some 50123"
  by (simp_all add: world_bound_def discovered_port_def)

text \<open>
  With \<open>--port 0\<close>, when \<open>start\<close> returns and the transport exposes its listening
  socket, the port returned and printed is the port that socket reports; it is in the
  range 1 to 65535 when the reported port is.
\<close>

lemma ephemeral_port_from_socket:
  "(fst (snd (ReferenceServer_start e (ReferenceServer_init h 0))) = Inr r
      \<and> serve_forever e = Inr tr \<and> discovered_port tr = Some q \<and> 1 \<le> q \<and> q \<le> 65535
      \<longrightarrow>
      stdout_of (fst (reference_server_main e h 0 v))
        = [Print stdout (Text (''MODBUS_PORT='' @ str_int q)) True]
    \<and> r = Some q)
   \<and> (fst (snd (TLSReferenceServer_start e (TLSReferenceServer_init h 0 cf kf ca))) = Inr r'
      \<and> serve_forever e = Inr tr \<and> discovered_port tr = Some q \<and> 1 \<le> q \<and> q \<le> 65535
      \<longrightarrow>
      stdout_of (fst (tls_reference_server_main e h 0 cf kf ca v))
        = [Print stdout (Text (''MODBUS_TLS_PORT='' @ str_int q)) True]
    \<and> r' = Some q)"
proof (intro conjI impI)
  assume a: "fst (snd (ReferenceServer_start e (ReferenceServer_init h 0))) = Inr r
      \<and> serve_forever e = Inr tr \<and> discovered_port tr = Some q \<and> 1 \<le> q \<and> q \<le> 65535"
  then have s: "fst (snd (ReferenceServer_start e (ReferenceServer_init h 0))) = Inr r"
    and f: "serve_forever e = Inr tr" and d: "discovered_port tr = Some q" by simp_all
  show r: "r = Some q"
    using ReferenceServer_start_new [OF f, of h 0] s d by simp
  show "stdout_of (fst (reference_server_main e h 0 v))
        = [Print stdout (Text (''MODBUS_PORT='' @ str_int q)) True]"
    by (simp add: reference_server_main_trace [OF s] stdout_of_simps ReferenceServer_stop_events
        r format_py_def)
next
  assume a: "fst (snd (TLSReferenceServer_start e (TLSReferenceServer_init h 0 cf kf ca))) = Inr r'
      \<and> serve_forever e = Inr tr \<and> discovered_port tr = Some q \<and> 1 \<le> q \<and> q \<le> 65535"
  then have s: "fst (snd (TLSReferenceServer_start e (TLSReferenceServer_init h 0 cf kf ca)))
                = Inr r'"
    and f: "serve_forever e = Inr tr" and d: "discovered_port tr = Some q" by simp_all
  show r: "r' = Some q"
    using TLSReferenceServer_start_new [OF f s] d by simp
  show "stdout_of (fst (tls_reference_server_main e h 0 cf kf ca v))
        = [Print stdout (Text (''MODBUS_TLS_PORT='' @ str_int q)) True]"
    by (simp add: tls_reference_server_main_trace [OF s] stdout_of_simps
        TLSReferenceServer_stop_events r format_py_def)
qed

lemma ephemeral_port_from_socket_example:
  "stdout_of (fst (reference_server_main world_bound ''127.0.0.1'' 0 False))
       = [Print stdout (Text ''MODBUS_PORT=50123'') True]
   \<and> stdout_of (fst (tls_reference_server_main world_bound ''127.0.0.1'' 0
                       ''certs/server.crt'' ''certs/server.key'' None False))
       = [Print stdout (Text ''MODBUS_TLS_PORT=50123'') True]"
  using ephemeral_port_from_socket [of world_bound "''127.0.0.1''" "Some 50123"
      "Some (Transport (Some [Socket (''127.0.0.1'', 50123)]))" 50123 False
      "''certs/server.crt''" "''certs/server.key''" None "Some 50123"]
    world_bound_start world_bound_tls_start world_bound_serve format_py_50123
  by (simp add: format_py_def)

text \<open>
  Claim C3 says that for every run started with \<open>--port 0\<close> in which \<open>start\<close>
  returns, the port printed on standard output is in the range 1 to 65535. The code
  misses this when the transport exposes no socket to query: \<open>start\<close>, documented to
  return the assigned, actual port, returns the requested port 0 instead, and the line
  printed for the parent process is \<open>MODBUS_PORT=0\<close> (\<open>MODBUS_TLS_PORT=0\<close> in the
  TLS server).
\<close>

theorem ephemeral_port_fallback_prints_zero:
  "serve_forever world_no_sockets = Inr (Some (Transport None))
   \<and> fst (snd (ReferenceServer_start world_no_sockets (ReferenceServer_init ''127.0.0.1'' 0)))
     = Inr (Some 0)
   \<and> stdout_of (fst (reference_server_main world_no_sockets ''127.0.0.1'' 0 False))
       = [Print stdout (Text ''MODBUS_PORT=0'') True]
   \<and> fst (snd (TLSReferenceServer_start world_no_sockets
        (TLSReferenceServer_init ''127.0.0.1'' 0 ''certs/server.crt'' ''certs/server.key''
           None)))
     = Inr (Some 0)
   \<and> stdout_of (fst (tls_reference_server_main world_no_sockets ''127.0.0.1'' 0
                       ''certs/server.crt'' ''certs/server.key'' None False))
       = [Print stdout (Text ''MODBUS_TLS_PORT=0'') True]
   \<and> \<not> (1 \<le> (0::int) \<and> (0::int) \<le> 65535)"
proof -
  have a: "fst (snd (ReferenceServer_start world_no_sockets (ReferenceServer_init ''127.0.0.1'' 0)))
     = Inr (Some 0)"
    by (rule world_no_sockets_start)
  have b: "fst (snd (TLSReferenceServer_start world_no_sockets
        (TLSReferenceServer_init ''127.0.0.1'' 0 ''certs/server.crt'' ''certs/server.key''
           None)))
     = Inr (Some 0)"
    by (rule world_no_sockets_start)
  have "stdout_of (fst (reference_server_main world_no_sockets ''127.0.0.1'' 0 False))
       = [Print stdout (Text ''MODBUS_PORT=0'') True]"
    by (simp add: reference_server_main_trace [OF a] stdout_of_simps
        ReferenceServer_stop_events format_py_0)
  moreover have "stdout_of (fst (tls_reference_server_main world_no_sockets ''127.0.0.1'' 0
                       ''certs/server.crt'' ''certs/server.key'' None False))
       = [Print stdout (Text ''MODBUS_TLS_PORT=0'') True]"
    by (simp add: tls_reference_server_main_trace [OF b] stdout_of_simps
        TLSReferenceServer_stop_events format_py_0)
  ultimately show ?thesis using a b world_no_sockets_serve by simp
qed

end
